theory Spec2Isabelle
  imports Complex_Main "HOL-Library.Word" "HOL-Library.Multiset"
begin

section \<open>The foreign boundary\<close>

text \<open>
  The Go wrapper (package azurecosmos) talks to a native library through cgo. The
  library itself is not part of the repository, so it is a parameter of every wrapper
  function: a record of functions that say what each entry point returns. Each of them
  may depend on the history of the boundary, so that a test double can count calls.

  A C pointer to a handle is an address or nil. A C character pointer is modelled
  together with the bytes that stand before its terminating NUL, which is what
  \<open>C.GoString\<close> reads.
\<close>

type_synonym addr = nat

type_synonym handle = "addr option"

type_synonym c_string = "addr \<times> string"

type_synonym c_chars = "c_string option"

text \<open>Everything that crosses the boundary, in the order it happens.\<close>

datatype event =
    Call_CString string addr
  | Call_GoString addr
  | Call_free addr
  | Call_cosmos_client_create_with_key c_string c_string
  | Call_cosmos_client_free addr
  | Call_cosmos_client_database_client addr c_string
  | Call_cosmos_database_free addr
  | Call_cosmos_database_container_client addr c_string
  | Call_cosmos_container_free addr
  | Call_cosmos_container_read_item addr c_string c_string
  | Call_cosmos_string_free addr

record cosmos_error =
  code :: "32 word"
  message :: c_chars

text \<open>
  The native library and the C allocator. Every entry point returns its status code and
  the final values of its out-parameters (which Go initialises to nil and to the zero
  \<open>cosmos_error\<close>).
\<close>

record foreign =
  malloc :: "event list \<Rightarrow> addr"
  cosmos_client_create_with_key ::
    "event list \<Rightarrow> c_string \<Rightarrow> c_string \<Rightarrow> 32 word \<times> handle \<times> cosmos_error"
  cosmos_client_database_client ::
    "event list \<Rightarrow> addr \<Rightarrow> c_string \<Rightarrow> 32 word \<times> handle \<times> cosmos_error"
  cosmos_database_container_client ::
    "event list \<Rightarrow> addr \<Rightarrow> c_string \<Rightarrow> 32 word \<times> handle \<times> cosmos_error"
  cosmos_container_read_item ::
    "event list \<Rightarrow> addr \<Rightarrow> c_string \<Rightarrow> c_string \<Rightarrow> 32 word \<times> c_chars \<times> cosmos_error"

text \<open>
  Modelled from the spec: the header azurecosmos.h is not in the repository; the spec
  gives the status code as a 32-bit integer whose success sentinel is 0.
\<close>

definition COSMOS_ERROR_CODE_SUCCESS :: "32 word" where
  "COSMOS_ERROR_CODE_SUCCESS = 0"

text \<open>
  \<open>C.CString\<close> copies a Go string into memory of the C allocator and appends a NUL;
  C code sees the bytes up to the first NUL. \<open>C.GoString\<close> copies them back.
\<close>

definition CString :: "foreign \<Rightarrow> string \<Rightarrow> event list \<Rightarrow> c_string \<times> event list" where
  "CString lib s t =
     (let a = malloc lib t
      in ((a, takeWhile (\<lambda>c. c \<noteq> CHR 0x00) s), t @ [Call_CString s a]))"

definition GoString :: "c_string \<Rightarrow> event list \<Rightarrow> string \<times> event list" where
  "GoString p t = (snd p, t @ [Call_GoString (fst p)])"

definition free :: "c_string \<Rightarrow> event list \<Rightarrow> event list" where
  "free p t = t @ [Call_free (fst p)]"

section \<open>Errors\<close>

text \<open>
  Go errors of the wrapper: the \<open>CosmosError\<close> struct, and the plain errors made by
  \<open>fmt.Errorf\<close>, which carry only their text.
\<close>

datatype go_error =
    CosmosError (Code: "32 word") (Message: string)
  | Errorf string

definition newCosmosError :: "cosmos_error \<Rightarrow> event list \<Rightarrow> go_error option \<times> event list" where
  "newCosmosError cerr t =
     (if code cerr = COSMOS_ERROR_CODE_SUCCESS then (None, t)
      else
        (let (message, t') =
               (case message cerr of
                  None \<Rightarrow> ('''', t)
                | Some p \<Rightarrow> GoString p t)
         in (Some (CosmosError (code cerr) message), t')))"

section \<open>The handle wrappers\<close>

text \<open>
  A wrapper is a Go object with one field, the native pointer. \<open>runtime.SetFinalizer\<close>
  attaches a finalizer to the object or removes it; the flag records whether one is
  attached.
\<close>

record CosmosClient =
  client :: handle
  client_finalizer :: bool

record DatabaseClient =
  database :: handle
  database_finalizer :: bool

record ContainerClient =
  container :: handle
  container_finalizer :: bool

definition NewCosmosClientWithKey ::
  "foreign \<Rightarrow> string \<Rightarrow> string \<Rightarrow> event list
     \<Rightarrow> (CosmosClient option \<times> go_error option) \<times> event list" where
  "NewCosmosClientWithKey lib endpoint key t0 =
     (let (cEndpoint, t1) = CString lib endpoint t0;
          (cKey, t2) = CString lib key t1;
          (rc, cl, cerr) = cosmos_client_create_with_key lib t2 cEndpoint cKey;
          t3 = t2 @ [Call_cosmos_client_create_with_key cEndpoint cKey];
          (ret, t4) =
            (if rc \<noteq> COSMOS_ERROR_CODE_SUCCESS
             then (let (e, t) = newCosmosError cerr t3 in ((None, e), t))
             else ((Some \<lparr>client = cl, client_finalizer = True\<rparr>, None), t3))
      in (ret, free cEndpoint (free cKey t4)))"

definition CosmosClient_finalize :: "CosmosClient \<Rightarrow> event list \<Rightarrow> CosmosClient \<times> event list" where
  "CosmosClient_finalize c t =
     (case client c of
        Some p \<Rightarrow> (c\<lparr>client := None\<rparr>, t @ [Call_cosmos_client_free p])
      | None \<Rightarrow> (c, t))"

definition CosmosClient_Close :: "CosmosClient \<Rightarrow> event list \<Rightarrow> CosmosClient \<times> event list" where
  "CosmosClient_Close c t = CosmosClient_finalize (c\<lparr>client_finalizer := False\<rparr>) t"

definition CosmosClient_DatabaseClient ::
  "foreign \<Rightarrow> CosmosClient \<Rightarrow> string \<Rightarrow> event list
     \<Rightarrow> (DatabaseClient option \<times> go_error option) \<times> event list" where
  "CosmosClient_DatabaseClient lib c databaseID t0 =
     (case client c of
        None \<Rightarrow> ((None, Some (Errorf ''client is closed'')), t0)
      | Some p \<Rightarrow>
         (let (cDatabaseID, t1) = CString lib databaseID t0;
              (rc, db, cerr) = cosmos_client_database_client lib t1 p cDatabaseID;
              t2 = t1 @ [Call_cosmos_client_database_client p cDatabaseID];
              (ret, t3) =
                (if rc \<noteq> COSMOS_ERROR_CODE_SUCCESS
                 then (let (e, t) = newCosmosError cerr t2 in ((None, e), t))
                 else ((Some \<lparr>database = db, database_finalizer = True\<rparr>, None), t2))
          in (ret, free cDatabaseID t3)))"

definition DatabaseClient_finalize :: "DatabaseClient \<Rightarrow> event list \<Rightarrow> DatabaseClient \<times> event list" where
  "DatabaseClient_finalize d t =
     (case database d of
        Some p \<Rightarrow> (d\<lparr>database := None\<rparr>, t @ [Call_cosmos_database_free p])
      | None \<Rightarrow> (d, t))"

definition DatabaseClient_Close :: "DatabaseClient \<Rightarrow> event list \<Rightarrow> DatabaseClient \<times> event list" where
  "DatabaseClient_Close d t = DatabaseClient_finalize (d\<lparr>database_finalizer := False\<rparr>) t"

definition DatabaseClient_ContainerClient ::
  "foreign \<Rightarrow> DatabaseClient \<Rightarrow> string \<Rightarrow> event list
     \<Rightarrow> (ContainerClient option \<times> go_error option) \<times> event list" where
  "DatabaseClient_ContainerClient lib d containerID t0 =
     (case database d of
        None \<Rightarrow> ((None, Some (Errorf ''database client is closed'')), t0)
      | Some p \<Rightarrow>
         (let (cContainerID, t1) = CString lib containerID t0;
              (rc, ct, cerr) = cosmos_database_container_client lib t1 p cContainerID;
              t2 = t1 @ [Call_cosmos_database_container_client p cContainerID];
              (ret, t3) =
                (if rc \<noteq> COSMOS_ERROR_CODE_SUCCESS
                 then (let (e, t) = newCosmosError cerr t2 in ((None, e), t))
                 else ((Some \<lparr>container = ct, container_finalizer = True\<rparr>, None), t2))
          in (ret, free cContainerID t3)))"

definition ContainerClient_finalize :: "ContainerClient \<Rightarrow> event list \<Rightarrow> ContainerClient \<times> event list" where
  "ContainerClient_finalize c t =
     (case container c of
        Some p \<Rightarrow> (c\<lparr>container := None\<rparr>, t @ [Call_cosmos_container_free p])
      | None \<Rightarrow> (c, t))"

definition ContainerClient_Close :: "ContainerClient \<Rightarrow> event list \<Rightarrow> ContainerClient \<times> event list" where
  "ContainerClient_Close c t = ContainerClient_finalize (c\<lparr>container_finalizer := False\<rparr>) t"

definition ContainerClient_ReadItem ::
  "foreign \<Rightarrow> ContainerClient \<Rightarrow> string \<Rightarrow> string \<Rightarrow> event list
     \<Rightarrow> (string \<times> go_error option) \<times> event list" where
  "ContainerClient_ReadItem lib c itemID partitionKey t0 =
     (case container c of
        None \<Rightarrow> (('''', Some (Errorf ''container client is closed'')), t0)
      | Some p \<Rightarrow>
         (let (cItemID, t1) = CString lib itemID t0;
              (cPartitionKey, t2) = CString lib partitionKey t1;
              (rc, outJson, cerr) = cosmos_container_read_item lib t2 p cPartitionKey cItemID;
              t3 = t2 @ [Call_cosmos_container_read_item p cPartitionKey cItemID];
              (ret, t4) =
                (if rc \<noteq> COSMOS_ERROR_CODE_SUCCESS
                 then (let (e, t) = newCosmosError cerr t3 in (('''', e), t))
                 else
                   (case outJson of
                      None \<Rightarrow> (('''', Some (Errorf ''received null JSON response'')), t3)
                    | Some q \<Rightarrow>
                       (let (result, t) = GoString q t3
                        in ((result, None), t @ [Call_cosmos_string_free (fst q)]))))
          in (ret, free cItemID (free cPartitionKey t4))))"

text \<open>
  The garbage collector runs an attached finalizer at most once, on an object that is
  no longer reachable, and detaches it.
\<close>

definition CosmosClient_collect :: "CosmosClient \<Rightarrow> event list \<Rightarrow> CosmosClient \<times> event list" where
  "CosmosClient_collect c t =
     (if client_finalizer c then CosmosClient_finalize (c\<lparr>client_finalizer := False\<rparr>) t
      else (c, t))"

definition DatabaseClient_collect :: "DatabaseClient \<Rightarrow> event list \<Rightarrow> DatabaseClient \<times> event list" where
  "DatabaseClient_collect d t =
     (if database_finalizer d then DatabaseClient_finalize (d\<lparr>database_finalizer := False\<rparr>) t
      else (d, t))"

definition ContainerClient_collect :: "ContainerClient \<Rightarrow> event list \<Rightarrow> ContainerClient \<times> event list" where
  "ContainerClient_collect c t =
     (if container_finalizer c then ContainerClient_finalize (c\<lparr>container_finalizer := False\<rparr>) t
      else (c, t))"

section \<open>Reading a history\<close>

text \<open>
  What a history says about marshaling: the copies made by \<open>C.CString\<close> (text and
  address), the addresses given to \<open>C.free\<close>, those given to \<open>cosmos_string_free\<close>, and
  which events are calls of an entry point of the native library that takes text.
\<close>

fun copied :: "event \<Rightarrow> (string \<times> addr) list" where
  "copied (Call_CString s a) = [(s, a)]"
| "copied _ = []"

fun freed :: "event \<Rightarrow> addr list" where
  "freed (Call_free a) = [a]"
| "freed _ = []"

fun string_freed :: "event \<Rightarrow> addr list" where
  "string_freed (Call_cosmos_string_free a) = [a]"
| "string_freed _ = []"

fun is_entry_point :: "event \<Rightarrow> bool" where
  "is_entry_point (Call_cosmos_client_create_with_key a b) = True"
| "is_entry_point (Call_cosmos_client_database_client p a) = True"
| "is_entry_point (Call_cosmos_database_container_client p a) = True"
| "is_entry_point (Call_cosmos_container_read_item p a b) = True"
| "is_entry_point _ = False"

definition copies :: "event list \<Rightarrow> (string \<times> addr) list" where
  "copies es = concat (map copied es)"

definition frees :: "event list \<Rightarrow> addr list" where
  "frees es = concat (map freed es)"

definition string_frees :: "event list \<Rightarrow> addr list" where
  "string_frees es = concat (map string_freed es)"

text \<open>
  The events of one wrapper call marshal the texts \<open>inputs\<close> in a scope around the
  entry point: one copy per input, in order, all made before the entry point is called;
  exactly one entry point call; every \<open>C.free\<close> after it; and the addresses freed are
  the addresses of the copies, each as often as it was handed out.
\<close>

definition scoped_copies :: "string list \<Rightarrow> event list \<Rightarrow> bool" where
  "scoped_copies inputs es \<longleftrightarrow>
     map fst (copies es) = inputs
     \<and> length (filter is_entry_point es) = 1
     \<and> copies (dropWhile (\<lambda>e. \<not> is_entry_point e) es) = []
     \<and> frees (takeWhile (\<lambda>e. \<not> is_entry_point e) es) = []
     \<and> mset (frees es) = mset (map snd (copies es))"

section \<open>Test doubles\<close>

text \<open>
  A native library that reports success everywhere and writes no handle and no payload,
  and one that hands out handles and a fixed document. Both allocate at the address
  that is the length of the history, so that live copies never share an address.
\<close>

definition no_error :: cosmos_error where
  "no_error = \<lparr>code = 0, message = None\<rparr>"

definition null_double :: foreign where
  "null_double =
     \<lparr>malloc = length,
      cosmos_client_create_with_key = (\<lambda>t a b. (0, None, no_error)),
      cosmos_client_database_client = (\<lambda>t p a. (0, None, no_error)),
      cosmos_database_container_client = (\<lambda>t p a. (0, None, no_error)),
      cosmos_container_read_item = (\<lambda>t p a b. (0, None, no_error))\<rparr>"

definition good_double :: foreign where
  "good_double =
     \<lparr>malloc = length,
      cosmos_client_create_with_key = (\<lambda>t a b. (0, Some 100, no_error)),
      cosmos_client_database_client = (\<lambda>t p a. (0, Some 200, no_error)),
      cosmos_database_container_client = (\<lambda>t p a. (0, Some 300, no_error)),
      cosmos_container_read_item = (\<lambda>t p a b. (0, Some (400, ''{}''), no_error))\<rparr>"


section \<open>Go's integers, formatting and random source\<close>

text \<open>
  Go's \<open>%\<close> truncates towards zero (the remainder has the sign of the dividend) and
  panics when the divisor is zero. A panic is \<open>None\<close>.
\<close>

definition go_rem :: "int \<Rightarrow> int \<Rightarrow> int option" where
  "go_rem a b = (if b = 0 then None else Some (sgn a * (\<bar>a\<bar> mod \<bar>b\<bar>)))"

text \<open>The verb \<open>%d\<close> of \<open>fmt\<close>: decimal digits, with a minus sign for a negative number.\<close>

definition digit_char :: "nat \<Rightarrow> char" where
  "digit_char d = ''0123456789'' ! d"

function decimal_nat :: "nat \<Rightarrow> string" where
  "decimal_nat n =
     (if n < 10 then [digit_char n] else decimal_nat (n div 10) @ [digit_char (n mod 10)])"
  by pat_completeness auto
termination
  by (relation "measure (\<lambda>n. n)") auto

declare decimal_nat.simps [simp del]

definition decimal :: "int \<Rightarrow> string" where
  "decimal i = (if i < 0 then CHR ''-'' # decimal_nat (nat (- i)) else decimal_nat (nat i))"

text \<open>
  \<open>rand.Intn n\<close> panics unless \<open>0 < n\<close> and otherwise returns a number of \<open>[0, n)\<close> that
  depends on the state of the source. The source is a parameter: the raw number it
  draws; every result in \<open>[0, n)\<close> is the image of some draw.
\<close>

definition Intn :: "int \<Rightarrow> int \<Rightarrow> int option" where
  "Intn raw n = (if n \<le> 0 then None else Some (raw mod n))"

text \<open>The method \<open>Error\<close> of the two kinds of error, as \<open>%v\<close> prints them.\<close>

fun Error :: "go_error \<Rightarrow> string" where
  "Error (CosmosError c m) = ''Cosmos error '' @ decimal (sint c) @ '': '' @ m"
| "Error (Errorf s) = s"

section \<open>The data loader\<close>

record RandomDocsItem =
  ID :: string
  PartitionKey :: string
  Data :: string
  RandomNumber :: int

definition generateRandomInt :: "int \<Rightarrow> int \<Rightarrow> int \<Rightarrow> int option" where
  "generateRandomInt raw mn mx = map_option (\<lambda>v. mn + v) (Intn raw (mx - mn + 1))"

definition letters :: string where
  "letters = ''abcdefghijklmnopqrstuvwxyzABCDEFGHIJKLMNOPQRSTUVWXYZ0123456789''"

text \<open>
  The global random source is a sequence of draws \<open>rng\<close>, read from position \<open>n\<close> on:
  one draw for each byte of the string.
\<close>

definition generateRandomString :: "(nat \<Rightarrow> int) \<Rightarrow> nat \<Rightarrow> nat \<Rightarrow> string option" where
  "generateRandomString rng n sz =
     map_option (map (\<lambda>v. letters ! nat v))
       (those (map (\<lambda>i. generateRandomInt (rng (n + i)) 0 (int (length letters) - 1))
                 [0..<sz]))"

definition createRandomDocsItem ::
  "(nat \<Rightarrow> int) \<Rightarrow> nat \<Rightarrow> int \<Rightarrow> int \<Rightarrow> RandomDocsItem option" where
  "createRandomDocsItem rng n index partitionCount =
     (case go_rem index partitionCount of
        None \<Rightarrow> None
      | Some r \<Rightarrow>
         (case generateRandomString rng n 1024 of
            None \<Rightarrow> None
          | Some data \<Rightarrow>
             (case generateRandomInt (rng (n + 1024)) 0 10000 of
                None \<Rightarrow> None
              | Some rn \<Rightarrow>
                 Some \<lparr>ID = ''item'' @ decimal index,
                       PartitionKey = ''partition'' @ decimal r,
                       Data = data,
                       RandomNumber = rn\<rparr>)))"

section \<open>The load generator\<close>

text \<open>
  The state the workers share: the two counters (\<open>int64\<close>, changed only by
  \<open>atomic.AddInt64\<close>, which wraps around), what was printed, and the history of the
  foreign boundary.
\<close>

record bench =
  totalOps :: "64 word"
  totalLatency :: "64 word"
  stdout :: "string list"
  boundary :: "event list"

text \<open>
  What one pass of a worker's loop meets: whether each of the two stop signals is ready
  when the \<open>select\<close> looks at them, the draw of the worker's random source, and the
  two readings of the clock in nanoseconds.
\<close>

record tick =
  ctx_done :: bool
  stop_closed :: bool
  draw :: int
  opStart :: int
  opEnd :: int

text \<open>\<open>Time.Sub\<close> gives a \<open>Duration\<close>, an \<open>int64\<close> of nanoseconds, and saturates.\<close>

definition Sub :: "int \<Rightarrow> int \<Rightarrow> int" where
  "Sub u t = max (- (2 ^ 63)) (min (2 ^ 63 - 1) (u - t))"

text \<open>Lines 401 and 402 of the worker: the keys of the item with a given index.\<close>

definition worker_keys :: "int \<Rightarrow> int \<Rightarrow> (string \<times> string) option" where
  "worker_keys itemIndex partitionCount =
     (case go_rem itemIndex partitionCount of
        None \<Rightarrow> None
      | Some r \<Rightarrow> Some (''item'' @ decimal itemIndex, ''partition'' @ decimal r))"

datatype step = Return | Continue | Panic

text \<open>
  One pass of the loop of \<open>workerBenchmark\<close>. The \<open>select\<close> returns when either signal
  is ready and takes the default branch otherwise.
\<close>

definition worker_iteration ::
  "foreign \<Rightarrow> ContainerClient \<Rightarrow> int \<Rightarrow> int \<Rightarrow> int \<Rightarrow> tick \<Rightarrow> bench \<Rightarrow> step \<times> bench" where
  "worker_iteration lib c itemCount partitionCount workerID k s =
     (if ctx_done k then (Return, s)
      else if stop_closed k then (Return, s)
      else
        (case Intn (draw k) itemCount of
           None \<Rightarrow> (Panic, s)
         | Some itemIndex \<Rightarrow>
            (case worker_keys itemIndex partitionCount of
               None \<Rightarrow> (Panic, s)
             | Some (itemID, partitionKey) \<Rightarrow>
                (let ((result, err), b) =
                       ContainerClient_ReadItem lib c itemID partitionKey (boundary s);
                     opLatency = Sub (opEnd k) (opStart k)
                 in case err of
                      Some e \<Rightarrow>
                        (Continue,
                         s\<lparr>boundary := b,
                           stdout := stdout s @
                             [''Worker '' @ decimal workerID @ '': Error reading item ''
                                @ itemID @ '': '' @ Error e]\<rparr>)
                    | None \<Rightarrow>
                        (Continue,
                         s\<lparr>boundary := b,
                           totalOps := totalOps s + 1,
                           totalLatency := totalLatency s + word_of_int opLatency\<rparr>)))))"


section \<open>The results\<close>

text \<open>
  A \<open>float64\<close> is either finite, and then a real number, or not (an infinity or NaN).
  The arithmetic rounds its exact result with \<open>fl\<close>, a parameter; IEEE 754 rounds to the
  nearest \<open>float64\<close>, so that a result that is itself a \<open>float64\<close> is exact. Division by
  zero does not panic: it gives a value that is not finite. The divisors of this
  program are finite.
\<close>

datatype float64 = Finite real | NonFinite

definition float64_of_int :: "(real \<Rightarrow> real) \<Rightarrow> int \<Rightarrow> real" where
  "float64_of_int fl k = fl (of_int k)"

definition fdiv :: "(real \<Rightarrow> real) \<Rightarrow> float64 \<Rightarrow> real \<Rightarrow> float64" where
  "fdiv fl x b =
     (case x of
        Finite a \<Rightarrow> if b = 0 then NonFinite else Finite (fl (a / b))
      | NonFinite \<Rightarrow> NonFinite)"

text \<open>
  \<open>Duration.Seconds\<close>: the whole seconds plus the remaining nanoseconds over \<open>1e9\<close>.
\<close>

definition Seconds :: "(real \<Rightarrow> real) \<Rightarrow> int \<Rightarrow> real" where
  "Seconds fl d =
     (let sec = sgn d * (\<bar>d\<bar> div 1000000000);
          nsec = sgn d * (\<bar>d\<bar> mod 1000000000)
      in fl (float64_of_int fl sec + fl (float64_of_int fl nsec / 1000000000)))"

record BenchmarkResults =
  TotalOps :: int
  ElapsedTime :: int
  OpsPerSecond :: float64
  LatencyMs :: float64

text \<open>
  The end of \<open>executeBenchmark\<close>, after \<open>wg.Wait()\<close>: from the elapsed time and the two
  counters to the results or the error.
\<close>

definition executeBenchmark_results ::
  "(real \<Rightarrow> real) \<Rightarrow> int \<Rightarrow> 64 word \<Rightarrow> 64 word \<Rightarrow> go_error + BenchmarkResults" where
  "executeBenchmark_results fl actualElapsed finalOps finalLatency =
     (if finalOps = 0 then Inl (Errorf ''no operations completed'')
      else Inr
        \<lparr>TotalOps = sint finalOps,
         ElapsedTime = actualElapsed,
         OpsPerSecond =
           fdiv fl (Finite (float64_of_int fl (sint finalOps))) (Seconds fl actualElapsed),
         LatencyMs =
           fdiv fl
             (fdiv fl (Finite (float64_of_int fl (sint finalLatency)))
                (float64_of_int fl (sint finalOps)))
             1000000\<rparr>)"

section \<open>The harness and its workers, step by step\<close>

text \<open>
  \<open>executeBenchmark\<close> starts the workers as goroutines and then waits: for the context
  to be done, then (after closing the stop channel) for the wait group. To say when
  something happens relative to a signal, the run is taken apart into steps, and a
  schedule says who moves next.

  A worker is at its \<open>select\<close>, or has taken the default branch and is about to read,
  or is inside \<open>ReadItem\<close> (with the keys and the start time it took), or is about to
  add to one of the counters (with the latency it measured), or has returned.
\<close>

datatype wpc =
    W_select
  | W_default
  | W_in_read string string int
  | W_add_ops int
  | W_add_latency int
  | W_returned

text \<open>
  The harness is blocked on \<open>benchCtx.Done()\<close>, or about to close the stop channel, or
  blocked in \<open>wg.Wait()\<close>, or about to load the counters, or done with its result.
\<close>

datatype hpc =
    H_wait_done
  | H_close_stop
  | H_wg_wait
  | H_load
  | H_done "go_error + BenchmarkResults"

record sys =
  ctx_closed :: bool
  stopChan_closed :: bool
  workers :: "wpc list"
  harness :: hpc
  shared :: bench
  crashed :: bool

text \<open>
  Who moves: the context is cancelled (its deadline passes or its parent is cancelled);
  worker \<open>i\<close> takes its next step, given what its random source draws and what the
  clock reads; the harness takes its next step, given the elapsed time it measures.
\<close>

datatype action =
    Fire
  | Worker nat int int
  | Harness int

text \<open>
  A step of worker \<open>i\<close>. A panic in a goroutine ends the program. A worker that has
  returned has no step, and neither has anyone after the program has crashed.
\<close>

definition worker_step ::
  "foreign \<Rightarrow> ContainerClient \<Rightarrow> int \<Rightarrow> int \<Rightarrow> nat \<Rightarrow> int \<Rightarrow> int \<Rightarrow> sys \<Rightarrow> sys option" where
  "worker_step lib c itemCount partitionCount i d now s =
     (if crashed s \<or> length (workers s) \<le> i then None
      else
        (case workers s ! i of
           W_select \<Rightarrow>
             Some (s\<lparr>workers := (workers s)
                     [i := (if ctx_closed s then W_returned
                            else if stopChan_closed s then W_returned
                            else W_default)]\<rparr>)
         | W_default \<Rightarrow>
             (case Intn d itemCount of
                None \<Rightarrow> Some (s\<lparr>crashed := True\<rparr>)
              | Some itemIndex \<Rightarrow>
                 (case worker_keys itemIndex partitionCount of
                    None \<Rightarrow> Some (s\<lparr>crashed := True\<rparr>)
                  | Some (itemID, partitionKey) \<Rightarrow>
                     Some (s\<lparr>workers := (workers s)[i := W_in_read itemID partitionKey now]\<rparr>)))
         | W_in_read itemID partitionKey t0 \<Rightarrow>
             (let ((result, err), b) =
                    ContainerClient_ReadItem lib c itemID partitionKey (boundary (shared s));
                  opLatency = Sub now t0
              in case err of
                   Some e \<Rightarrow>
                     Some (s\<lparr>shared := (shared s)
                               \<lparr>boundary := b,
                                stdout := stdout (shared s) @
                                  [''Worker '' @ decimal (int i) @ '': Error reading item ''
                                     @ itemID @ '': '' @ Error e]\<rparr>,
                             workers := (workers s)[i := W_select]\<rparr>)
                 | None \<Rightarrow>
                     Some (s\<lparr>shared := (shared s)\<lparr>boundary := b\<rparr>,
                             workers := (workers s)[i := W_add_ops opLatency]\<rparr>))
         | W_add_ops l \<Rightarrow>
             Some (s\<lparr>shared := (shared s)\<lparr>totalOps := totalOps (shared s) + 1\<rparr>,
                     workers := (workers s)[i := W_add_latency l]\<rparr>)
         | W_add_latency l \<Rightarrow>
             Some (s\<lparr>shared := (shared s)
                       \<lparr>totalLatency := totalLatency (shared s) + word_of_int l\<rparr>,
                     workers := (workers s)[i := W_select]\<rparr>)
         | W_returned \<Rightarrow> None))"

text \<open>
  A step of the harness, from line 362 of the source on. It can leave
  \<open>benchCtx.Done()\<close> only when the context is cancelled, and \<open>wg.Wait()\<close> only when every
  worker has returned.
\<close>

definition harness_step :: "(real \<Rightarrow> real) \<Rightarrow> int \<Rightarrow> sys \<Rightarrow> sys option" where
  "harness_step fl actualElapsed s =
     (if crashed s then None
      else
        (case harness s of
           H_wait_done \<Rightarrow> if ctx_closed s then Some (s\<lparr>harness := H_close_stop\<rparr>) else None
         | H_close_stop \<Rightarrow> Some (s\<lparr>stopChan_closed := True, harness := H_wg_wait\<rparr>)
         | H_wg_wait \<Rightarrow>
             if list_all (\<lambda>w. w = W_returned) (workers s) then Some (s\<lparr>harness := H_load\<rparr>)
             else None
         | H_load \<Rightarrow>
             Some (s\<lparr>harness :=
                      H_done (executeBenchmark_results fl actualElapsed
                                (totalOps (shared s)) (totalLatency (shared s)))\<rparr>)
         | H_done r \<Rightarrow> None))"

definition sys_step ::
  "foreign \<Rightarrow> ContainerClient \<Rightarrow> int \<Rightarrow> int \<Rightarrow> (real \<Rightarrow> real) \<Rightarrow> action \<Rightarrow> sys \<Rightarrow> sys option" where
  "sys_step lib c itemCount partitionCount fl a s =
     (case a of
        Fire \<Rightarrow> if crashed s then None else Some (s\<lparr>ctx_closed := True\<rparr>)
      | Worker i d now \<Rightarrow> worker_step lib c itemCount partitionCount i d now s
      | Harness actualElapsed \<Rightarrow> harness_step fl actualElapsed s)"

text \<open>A schedule is run from left to right; it is \<open>None\<close> when someone cannot move.\<close>

fun run ::
  "foreign \<Rightarrow> ContainerClient \<Rightarrow> int \<Rightarrow> int \<Rightarrow> (real \<Rightarrow> real) \<Rightarrow> action list \<Rightarrow> sys
     \<Rightarrow> sys option" where
  "run lib c itemCount partitionCount fl [] s = Some s"
| "run lib c itemCount partitionCount fl (a # as) s =
     (case sys_step lib c itemCount partitionCount fl a s of
        None \<Rightarrow> None
      | Some s' \<Rightarrow> run lib c itemCount partitionCount fl as s')"

text \<open>
  \<open>executeBenchmark\<close> after it has started its \<open>n\<close> workers: the counters are zero,
  nothing is cancelled, every worker is at its first \<open>select\<close>.
\<close>

definition started :: "nat \<Rightarrow> event list \<Rightarrow> sys" where
  "started n t =
     \<lparr>ctx_closed = False, stopChan_closed = False,
      workers = replicate n W_select,
      harness = H_wait_done,
      shared = \<lparr>totalOps = 0, totalLatency = 0, stdout = [], boundary = t\<rparr>,
      crashed = False\<rparr>"

text \<open>
  Whether the harness is past \<open>wg.Wait()\<close>, whether a worker is inside a read, and
  whether an action is a step of worker \<open>i\<close>.
\<close>

fun joined :: "hpc \<Rightarrow> bool" where
  "joined H_load = True"
| "joined (H_done r) = True"
| "joined _ = False"

fun in_read :: "wpc \<Rightarrow> bool" where
  "in_read (W_in_read itemID partitionKey t0) = True"
| "in_read _ = False"

fun moves :: "action \<Rightarrow> nat \<Rightarrow> bool" where
  "moves (Worker j d now) i = (j = i)"
| "moves _ i = False"

text \<open>
  What holds all along a run: past \<open>wg.Wait()\<close> every worker has returned, and a result
  that has been computed is the result of the counters as they are.
\<close>

definition waited :: "(real \<Rightarrow> real) \<Rightarrow> sys \<Rightarrow> bool" where
  "waited fl s \<longleftrightarrow>
     (if joined (harness s) then list_all (\<lambda>w. w = W_returned) (workers s) else True)
     \<and> (case harness s of
           H_done r \<Rightarrow>
             \<exists>el. r = executeBenchmark_results fl el (totalOps (shared s))
                        (totalLatency (shared s))
         | _ \<Rightarrow> True)"

section \<open>Closing handles\<close>


lemma CosmosClient_Close_again:
  "case_prod CosmosClient_Close (CosmosClient_Close c t) = CosmosClient_Close c t"
  by (simp add: CosmosClient_Close_def CosmosClient_finalize_def split: option.splits)

lemma CosmosClient_Close_funpow:
  "(case_prod CosmosClient_Close ^^ Suc n) (c, t) = CosmosClient_Close c t"
proof (induction n)
  case 0
  show ?case by simp
next
  case (Suc n)
  have "(case_prod CosmosClient_Close ^^ Suc (Suc n)) (c, t) =
        case_prod CosmosClient_Close ((case_prod CosmosClient_Close ^^ Suc n) (c, t))"
    by simp
  also have "\<dots> = case_prod CosmosClient_Close (CosmosClient_Close c t)"
    by (simp only: Suc.IH)
  finally show ?case by (simp only: CosmosClient_Close_again)
qed

lemma CosmosClient_Close_events:
  "CosmosClient_Close c t =
     (c\<lparr>client := None, client_finalizer := False\<rparr>,
      t @ (case client c of None \<Rightarrow> [] | Some p \<Rightarrow> [Call_cosmos_client_free p]))"
  by (cases c) (simp add: CosmosClient_Close_def CosmosClient_finalize_def split: option.splits)

lemma CosmosClient_finalize_after_Close:
  "case_prod CosmosClient_finalize (CosmosClient_Close c t) = CosmosClient_Close c t"
  by (simp add: CosmosClient_Close_def CosmosClient_finalize_def split: option.splits)

lemma CosmosClient_collect_after_Close:
  "case_prod CosmosClient_collect (CosmosClient_Close c t) = CosmosClient_Close c t"
  by (simp add: CosmosClient_Close_def CosmosClient_finalize_def CosmosClient_collect_def split: option.splits)

lemma DatabaseClient_Close_again:
  "case_prod DatabaseClient_Close (DatabaseClient_Close c t) = DatabaseClient_Close c t"
  by (simp add: DatabaseClient_Close_def DatabaseClient_finalize_def split: option.splits)

lemma DatabaseClient_Close_funpow:
  "(case_prod DatabaseClient_Close ^^ Suc n) (c, t) = DatabaseClient_Close c t"
proof (induction n)
  case 0
  show ?case by simp
next
  case (Suc n)
  have "(case_prod DatabaseClient_Close ^^ Suc (Suc n)) (c, t) =
        case_prod DatabaseClient_Close ((case_prod DatabaseClient_Close ^^ Suc n) (c, t))"
    by simp
  also have "\<dots> = case_prod DatabaseClient_Close (DatabaseClient_Close c t)"
    by (simp only: Suc.IH)
  finally show ?case by (simp only: DatabaseClient_Close_again)
qed

lemma DatabaseClient_Close_events:
  "DatabaseClient_Close c t =
     (c\<lparr>database := None, database_finalizer := False\<rparr>,
      t @ (case database c of None \<Rightarrow> [] | Some p \<Rightarrow> [Call_cosmos_database_free p]))"
  by (cases c) (simp add: DatabaseClient_Close_def DatabaseClient_finalize_def split: option.splits)

lemma DatabaseClient_finalize_after_Close:
  "case_prod DatabaseClient_finalize (DatabaseClient_Close c t) = DatabaseClient_Close c t"
  by (simp add: DatabaseClient_Close_def DatabaseClient_finalize_def split: option.splits)

lemma DatabaseClient_collect_after_Close:
  "case_prod DatabaseClient_collect (DatabaseClient_Close c t) = DatabaseClient_Close c t"
  by (simp add: DatabaseClient_Close_def DatabaseClient_finalize_def DatabaseClient_collect_def split: option.splits)

lemma ContainerClient_Close_again:
  "case_prod ContainerClient_Close (ContainerClient_Close c t) = ContainerClient_Close c t"
  by (simp add: ContainerClient_Close_def ContainerClient_finalize_def split: option.splits)

lemma ContainerClient_Close_funpow:
  "(case_prod ContainerClient_Close ^^ Suc n) (c, t) = ContainerClient_Close c t"
proof (induction n)
  case 0
  show ?case by simp
next
  case (Suc n)
  have "(case_prod ContainerClient_Close ^^ Suc (Suc n)) (c, t) =
        case_prod ContainerClient_Close ((case_prod ContainerClient_Close ^^ Suc n) (c, t))"
    by simp
  also have "\<dots> = case_prod ContainerClient_Close (ContainerClient_Close c t)"
    by (simp only: Suc.IH)
  finally show ?case by (simp only: ContainerClient_Close_again)
qed

lemma ContainerClient_Close_events:
  "ContainerClient_Close c t =
     (c\<lparr>container := None, container_finalizer := False\<rparr>,
      t @ (case container c of None \<Rightarrow> [] | Some p \<Rightarrow> [Call_cosmos_container_free p]))"
  by (cases c) (simp add: ContainerClient_Close_def ContainerClient_finalize_def split: option.splits)

lemma ContainerClient_finalize_after_Close:
  "case_prod ContainerClient_finalize (ContainerClient_Close c t) = ContainerClient_Close c t"
  by (simp add: ContainerClient_Close_def ContainerClient_finalize_def split: option.splits)

lemma ContainerClient_collect_after_Close:
  "case_prod ContainerClient_collect (ContainerClient_Close c t) = ContainerClient_Close c t"
  by (simp add: ContainerClient_Close_def ContainerClient_finalize_def ContainerClient_collect_def split: option.splits)

text \<open>
  Claim C1. For each of the three wrappers, closing any number of times (at least once)
  leaves the wrapper and the boundary exactly as one \<open>Close\<close> does: the destructor is
  called once if the wrapper held a handle and never if it did not, and neither a further
  \<open>Close\<close>, nor \<open>finalize\<close>, nor a run of the garbage collector after \<open>Close\<close> calls it
  again.
\<close>

theorem Close_idempotent:
  "(case_prod CosmosClient_Close ^^ Suc n) (c, t) = CosmosClient_Close c t
   \<and> snd (CosmosClient_Close c t) =
       t @ (case client c of None \<Rightarrow> [] | Some p \<Rightarrow> [Call_cosmos_client_free p])
   \<and> case_prod CosmosClient_finalize (CosmosClient_Close c t) = CosmosClient_Close c t
   \<and> case_prod CosmosClient_collect (CosmosClient_Close c t) = CosmosClient_Close c t
   \<and> (case_prod DatabaseClient_Close ^^ Suc n) (d, t) = DatabaseClient_Close d t
   \<and> snd (DatabaseClient_Close d t) =
       t @ (case database d of None \<Rightarrow> [] | Some p \<Rightarrow> [Call_cosmos_database_free p])
   \<and> case_prod DatabaseClient_finalize (DatabaseClient_Close d t) = DatabaseClient_Close d t
   \<and> case_prod DatabaseClient_collect (DatabaseClient_Close d t) = DatabaseClient_Close d t
   \<and> (case_prod ContainerClient_Close ^^ Suc n) (k, t) = ContainerClient_Close k t
   \<and> snd (ContainerClient_Close k t) =
       t @ (case container k of None \<Rightarrow> [] | Some p \<Rightarrow> [Call_cosmos_container_free p])
   \<and> case_prod ContainerClient_finalize (ContainerClient_Close k t) = ContainerClient_Close k t
   \<and> case_prod ContainerClient_collect (ContainerClient_Close k t) = ContainerClient_Close k t"
  unfolding CosmosClient_Close_funpow DatabaseClient_Close_funpow ContainerClient_Close_funpow
    CosmosClient_finalize_after_Close DatabaseClient_finalize_after_Close
    ContainerClient_finalize_after_Close CosmosClient_collect_after_Close
    DatabaseClient_collect_after_Close ContainerClient_collect_after_Close
  by (simp add: CosmosClient_Close_events DatabaseClient_Close_events
      ContainerClient_Close_events)

text \<open>
  Claim C2. On a wrapper whose handle pointer is nil (the state \<open>Close\<close> leaves it in),
  every domain operation returns its "... is closed" error at once, with no result,
  and nothing crosses the foreign boundary: the history is unchanged, whatever the
  native library would have answered.
\<close>

theorem closed_wrapper_refuses:
  "CosmosClient_DatabaseClient lib (c\<lparr>client := None\<rparr>) databaseID t =
     ((None, Some (Errorf ''client is closed'')), t)
   \<and> CosmosClient_DatabaseClient lib (fst (CosmosClient_Close c t0)) databaseID t =
     ((None, Some (Errorf ''client is closed'')), t)
   \<and> DatabaseClient_ContainerClient lib (d\<lparr>database := None\<rparr>) containerID t =
     ((None, Some (Errorf ''database client is closed'')), t)
   \<and> DatabaseClient_ContainerClient lib (fst (DatabaseClient_Close d t0)) containerID t =
     ((None, Some (Errorf ''database client is closed'')), t)
   \<and> ContainerClient_ReadItem lib (k\<lparr>container := None\<rparr>) itemID partitionKey t =
     (('''', Some (Errorf ''container client is closed'')), t)
   \<and> ContainerClient_ReadItem lib (fst (ContainerClient_Close k t0)) itemID partitionKey t =
     (('''', Some (Errorf ''container client is closed'')), t)"
  by (simp add: CosmosClient_DatabaseClient_def DatabaseClient_ContainerClient_def
      ContainerClient_ReadItem_def CosmosClient_Close_events DatabaseClient_Close_events
      ContainerClient_Close_events)
section \<open>The error translator\<close>

text \<open>
  Claim C4. For every status code and optional message buffer, \<open>newCosmosError\<close> returns
  no error when the code is the success sentinel 0, whatever the message is (and does
  not even read it); for every other code it returns a \<open>CosmosError\<close> with exactly
  that code and the text of the message, the empty string when the message pointer is
  nil. So no error with code 0 is ever made.
\<close>

theorem newCosmosError_translates:
  "newCosmosError \<lparr>code = 0, message = m\<rparr> t = (None, t)
   \<and> fst (newCosmosError \<lparr>code = k, message = None\<rparr> t) =
       (if k = 0 then None else Some (CosmosError k ''''))
   \<and> fst (newCosmosError \<lparr>code = k, message = Some (a, s)\<rparr> t) =
       (if k = 0 then None else Some (CosmosError k s))
   \<and> fst (newCosmosError cerr t) \<noteq> Some (CosmosError 0 s')"
  by (auto simp: newCosmosError_def COSMOS_ERROR_CODE_SUCCESS_def GoString_def
      split: option.splits prod.splits)


section \<open>Reading an item\<close>

text \<open>
  Claim C3. On an open container, for every item identifier and partition key: when
  the native read reports the success status code but writes a nil payload pointer,
  \<open>ReadItem\<close> returns the error "received null JSON response" together with the empty
  string as its (unused) result. It neither fails otherwise nor reports success, and
  it still releases both copies of its inputs.
\<close>

theorem ReadItem_null_response:
  assumes "container c = Some p"
    and "CString lib itemID t0 = (cItemID, t1)"
    and "CString lib partitionKey t1 = (cPartitionKey, t2)"
    and "cosmos_container_read_item lib t2 p cPartitionKey cItemID =
           (COSMOS_ERROR_CODE_SUCCESS, None, cerr)"
  shows "ContainerClient_ReadItem lib c itemID partitionKey t0 =
           (('''', Some (Errorf ''received null JSON response'')),
            t2 @ [Call_cosmos_container_read_item p cPartitionKey cItemID,
                  Call_free (fst cPartitionKey), Call_free (fst cItemID)])"
  using assms by (simp add: ContainerClient_ReadItem_def free_def)

theorem ReadItem_null_response_witness:
  "ContainerClient_ReadItem null_double \<lparr>container = Some 7, container_finalizer = True\<rparr>
     ''item2345'' ''partition5'' [] =
     (('''', Some (Errorf ''received null JSON response'')),
      [Call_CString ''item2345'' 0, Call_CString ''partition5'' 1,
       Call_cosmos_container_read_item 7 (1, ''partition5'') (0, ''item2345''),
       Call_free 1, Call_free 0])"
proof -
  have h1: "container \<lparr>container = Some 7, container_finalizer = True\<rparr> = Some 7"
    by simp
  have h2: "CString null_double ''item2345'' [] = ((0, ''item2345''), [Call_CString ''item2345'' 0])"
    by (simp add: CString_def null_double_def)
  have h3: "CString null_double ''partition5'' [Call_CString ''item2345'' 0] =
              ((1, ''partition5''), [Call_CString ''item2345'' 0, Call_CString ''partition5'' 1])"
    by (simp add: CString_def null_double_def)
  have h4: "cosmos_container_read_item null_double
              [Call_CString ''item2345'' 0, Call_CString ''partition5'' 1] 7
              (1, ''partition5'') (0, ''item2345'') = (COSMOS_ERROR_CODE_SUCCESS, None, no_error)"
    by (simp add: null_double_def COSMOS_ERROR_CODE_SUCCESS_def)
  show ?thesis
    using ReadItem_null_response [OF h1 h2 h3 h4] by simp
qed

section \<open>Constructors that receive no handle\<close>

text \<open>
  Claim C10. When a native constructor (create client, open database, open container)
  reports the success status code but writes a nil handle, the Go constructor returns a
  wrapper and no error. That wrapper holds the nil pointer, so it is
  indistinguishable from a closed one: its domain operation returns the
  "... is closed" error without touching the boundary, and neither \<open>Close\<close> nor the
  finalizer calls the native destructor. Unlike \<open>ReadItem\<close>, the constructors have no
  error of their own for a nil result.
\<close>

theorem constructors_accept_nil_handle:
  "(CString lib endpoint ta = (cEndpoint, tb) \<and> CString lib key tb = (cKey, tc)
      \<and> cosmos_client_create_with_key lib tc cEndpoint cKey =
          (COSMOS_ERROR_CODE_SUCCESS, None, cerr)
    \<longrightarrow> fst (NewCosmosClientWithKey lib endpoint key ta) =
          (Some \<lparr>client = None, client_finalizer = True\<rparr>, None))
   \<and> (client c = Some p \<and> CString lib databaseID ua = (cDatabaseID, ub)
      \<and> cosmos_client_database_client lib ub p cDatabaseID =
          (COSMOS_ERROR_CODE_SUCCESS, None, cerr')
    \<longrightarrow> fst (CosmosClient_DatabaseClient lib c databaseID ua) =
          (Some \<lparr>database = None, database_finalizer = True\<rparr>, None))
   \<and> (database d = Some q \<and> CString lib containerID va = (cContainerID, vb)
      \<and> cosmos_database_container_client lib vb q cContainerID =
          (COSMOS_ERROR_CODE_SUCCESS, None, cerr'')
    \<longrightarrow> fst (DatabaseClient_ContainerClient lib d containerID va) =
          (Some \<lparr>container = None, container_finalizer = True\<rparr>, None))
   \<and> CosmosClient_DatabaseClient lib' \<lparr>client = None, client_finalizer = True\<rparr> databaseID' t =
        ((None, Some (Errorf ''client is closed'')), t)
   \<and> DatabaseClient_ContainerClient lib' \<lparr>database = None, database_finalizer = True\<rparr>
        containerID' t = ((None, Some (Errorf ''database client is closed'')), t)
   \<and> ContainerClient_ReadItem lib' \<lparr>container = None, container_finalizer = True\<rparr>
        itemID partitionKey t = (('''', Some (Errorf ''container client is closed'')), t)
   \<and> snd (CosmosClient_Close \<lparr>client = None, client_finalizer = True\<rparr> t) = t
   \<and> snd (DatabaseClient_Close \<lparr>database = None, database_finalizer = True\<rparr> t) = t
   \<and> snd (ContainerClient_Close \<lparr>container = None, container_finalizer = True\<rparr> t) = t
   \<and> snd (CosmosClient_collect \<lparr>client = None, client_finalizer = True\<rparr> t) = t
   \<and> snd (DatabaseClient_collect \<lparr>database = None, database_finalizer = True\<rparr> t) = t
   \<and> snd (ContainerClient_collect \<lparr>container = None, container_finalizer = True\<rparr> t) = t"
  by (simp add: NewCosmosClientWithKey_def CosmosClient_DatabaseClient_def
      DatabaseClient_ContainerClient_def ContainerClient_ReadItem_def
      CosmosClient_Close_def DatabaseClient_Close_def ContainerClient_Close_def
      CosmosClient_collect_def DatabaseClient_collect_def ContainerClient_collect_def
      CosmosClient_finalize_def DatabaseClient_finalize_def ContainerClient_finalize_def)

theorem constructors_accept_nil_handle_witness:
  "fst (NewCosmosClientWithKey null_double ''https://localhost:8080'' ''secret'' []) =
     (Some \<lparr>client = None, client_finalizer = True\<rparr>, None)
   \<and> fst (CosmosClient_DatabaseClient null_double \<lparr>client = Some 100, client_finalizer = True\<rparr>
        ''sdk-bench-db'' []) = (Some \<lparr>database = None, database_finalizer = True\<rparr>, None)
   \<and> fst (DatabaseClient_ContainerClient null_double
        \<lparr>database = Some 200, database_finalizer = True\<rparr> ''RandomDocs'' []) =
        (Some \<lparr>container = None, container_finalizer = True\<rparr>, None)
   \<and> CosmosClient_DatabaseClient good_double \<lparr>client = None, client_finalizer = True\<rparr>
        ''sdk-bench-db'' [] = ((None, Some (Errorf ''client is closed'')), [])
   \<and> snd (CosmosClient_Close \<lparr>client = None, client_finalizer = True\<rparr> []) = []"
proof -
  have a1: "CString null_double ''https://localhost:8080'' [] =
              ((0, ''https://localhost:8080''), [Call_CString ''https://localhost:8080'' 0])"
    by (simp add: CString_def null_double_def)
  have a2: "CString null_double ''secret'' [Call_CString ''https://localhost:8080'' 0] =
              ((1, ''secret''),
               [Call_CString ''https://localhost:8080'' 0, Call_CString ''secret'' 1])"
    by (simp add: CString_def null_double_def)
  have a3: "cosmos_client_create_with_key null_double
              [Call_CString ''https://localhost:8080'' 0, Call_CString ''secret'' 1]
              (0, ''https://localhost:8080'') (1, ''secret'') =
              (COSMOS_ERROR_CODE_SUCCESS, None, no_error)"
    by (simp add: null_double_def COSMOS_ERROR_CODE_SUCCESS_def)
  have b1: "client \<lparr>client = Some 100, client_finalizer = True\<rparr> = Some 100"
    by simp
  have b2: "CString null_double ''sdk-bench-db'' [] =
              ((0, ''sdk-bench-db''), [Call_CString ''sdk-bench-db'' 0])"
    by (simp add: CString_def null_double_def)
  have b3: "cosmos_client_database_client null_double [Call_CString ''sdk-bench-db'' 0] 100
              (0, ''sdk-bench-db'') = (COSMOS_ERROR_CODE_SUCCESS, None, no_error)"
    by (simp add: null_double_def COSMOS_ERROR_CODE_SUCCESS_def)
  have c1: "database \<lparr>database = Some 200, database_finalizer = True\<rparr> = Some 200"
    by simp
  have c2: "CString null_double ''RandomDocs'' [] =
              ((0, ''RandomDocs''), [Call_CString ''RandomDocs'' 0])"
    by (simp add: CString_def null_double_def)
  have c3: "cosmos_database_container_client null_double [Call_CString ''RandomDocs'' 0] 200
              (0, ''RandomDocs'') = (COSMOS_ERROR_CODE_SUCCESS, None, no_error)"
    by (simp add: null_double_def COSMOS_ERROR_CODE_SUCCESS_def)
  note inst = constructors_accept_nil_handle
    [where lib = null_double and endpoint = "''https://localhost:8080''" and key = "''secret''"
       and ta = "[]" and ua = "[]" and va = "[]"
       and databaseID = "''sdk-bench-db''" and containerID = "''RandomDocs''"
       and c = "\<lparr>client = Some 100, client_finalizer = True\<rparr>"
       and d = "\<lparr>database = Some 200, database_finalizer = True\<rparr>"
       and lib' = good_double and databaseID' = "''sdk-bench-db''" and t = "[]"]
  show ?thesis
    using inst a1 a2 a3 b1 b2 b3 c1 c2 c3 by simp
qed

section \<open>Marshaling text across the boundary\<close>

text \<open>The events of the error translator: at most one read of the message buffer.\<close>

lemma newCosmosError_events:
  "snd (newCosmosError cerr t) =
     t @ (if code cerr = COSMOS_ERROR_CODE_SUCCESS then []
          else case message cerr of None \<Rightarrow> [] | Some m \<Rightarrow> [Call_GoString (fst m)])"
  by (simp add: newCosmosError_def GoString_def split: option.splits)

lemma CString_events:
  "CString lib s t = (p, t') \<Longrightarrow> t' = t @ [Call_CString s (fst p)]"
  by (auto simp: CString_def Let_def)

text \<open>The history each wrapper function leaves behind, on every path.\<close>

lemma NewCosmosClientWithKey_events:
  assumes "CString lib endpoint t0 = (cEndpoint, t1)"
    and "CString lib key t1 = (cKey, t2)"
    and "cosmos_client_create_with_key lib t2 cEndpoint cKey = (rc, cl, cerr)"
  shows "snd (NewCosmosClientWithKey lib endpoint key t0) =
           t0 @ [Call_CString endpoint (fst cEndpoint), Call_CString key (fst cKey),
                 Call_cosmos_client_create_with_key cEndpoint cKey]
              @ (if rc \<noteq> COSMOS_ERROR_CODE_SUCCESS then snd (newCosmosError cerr []) else [])
              @ [Call_free (fst cKey), Call_free (fst cEndpoint)]"
  using assms CString_events [OF assms(1)] CString_events [OF assms(2)]
  by (simp add: NewCosmosClientWithKey_def free_def newCosmosError_events
      case_prod_beta)

lemma CosmosClient_DatabaseClient_events:
  assumes "client c = Some p"
    and "CString lib databaseID t0 = (cDatabaseID, t1)"
    and "cosmos_client_database_client lib t1 p cDatabaseID = (rc, db, cerr)"
  shows "snd (CosmosClient_DatabaseClient lib c databaseID t0) =
           t0 @ [Call_CString databaseID (fst cDatabaseID),
                 Call_cosmos_client_database_client p cDatabaseID]
              @ (if rc \<noteq> COSMOS_ERROR_CODE_SUCCESS then snd (newCosmosError cerr []) else [])
              @ [Call_free (fst cDatabaseID)]"
  using assms CString_events [OF assms(2)]
  by (simp add: CosmosClient_DatabaseClient_def free_def newCosmosError_events
      case_prod_beta)

lemma DatabaseClient_ContainerClient_events:
  assumes "database d = Some p"
    and "CString lib containerID t0 = (cContainerID, t1)"
    and "cosmos_database_container_client lib t1 p cContainerID = (rc, ct, cerr)"
  shows "snd (DatabaseClient_ContainerClient lib d containerID t0) =
           t0 @ [Call_CString containerID (fst cContainerID),
                 Call_cosmos_database_container_client p cContainerID]
              @ (if rc \<noteq> COSMOS_ERROR_CODE_SUCCESS then snd (newCosmosError cerr []) else [])
              @ [Call_free (fst cContainerID)]"
  using assms CString_events [OF assms(2)]
  by (simp add: DatabaseClient_ContainerClient_def free_def newCosmosError_events
      case_prod_beta)

lemma ContainerClient_ReadItem_events:
  assumes "container k = Some p"
    and "CString lib itemID t0 = (cItemID, t1)"
    and "CString lib partitionKey t1 = (cPartitionKey, t2)"
    and "cosmos_container_read_item lib t2 p cPartitionKey cItemID = (rc, outJson, cerr)"
  shows "snd (ContainerClient_ReadItem lib k itemID partitionKey t0) =
           t0 @ [Call_CString itemID (fst cItemID), Call_CString partitionKey (fst cPartitionKey),
                 Call_cosmos_container_read_item p cPartitionKey cItemID]
              @ (if rc \<noteq> COSMOS_ERROR_CODE_SUCCESS then snd (newCosmosError cerr [])
                 else case outJson of
                        None \<Rightarrow> []
                      | Some q \<Rightarrow> [Call_GoString (fst q), Call_cosmos_string_free (fst q)])
              @ [Call_free (fst cPartitionKey), Call_free (fst cItemID)]"
  using assms CString_events [OF assms(2)] CString_events [OF assms(3)]
  by (simp add: ContainerClient_ReadItem_def free_def newCosmosError_events GoString_def
      case_prod_beta split: option.splits)

lemma ContainerClient_ReadItem_result:
  assumes "container k = Some p"
    and "CString lib itemID t0 = (cItemID, t1)"
    and "CString lib partitionKey t1 = (cPartitionKey, t2)"
    and "cosmos_container_read_item lib t2 p cPartitionKey cItemID = (rc, outJson, cerr)"
  shows "fst (ContainerClient_ReadItem lib k itemID partitionKey t0) =
           (if rc \<noteq> COSMOS_ERROR_CODE_SUCCESS
            then ('''', fst (newCosmosError cerr
                   (t2 @ [Call_cosmos_container_read_item p cPartitionKey cItemID])))
            else case outJson of
                   None \<Rightarrow> ('''', Some (Errorf ''received null JSON response''))
                 | Some q \<Rightarrow> (snd q, None))"
  using assms
  by (simp add: ContainerClient_ReadItem_def GoString_def case_prod_beta Let_def
      split: option.splits)

text \<open>The shapes of history that the four functions produce are scoped.\<close>

lemma scoped_two:
  "is_entry_point c \<Longrightarrow> copied c = [] \<Longrightarrow> freed c = []
   \<Longrightarrow> \<forall>x \<in> set mid. copied x = [] \<and> freed x = [] \<and> \<not> is_entry_point x
   \<Longrightarrow> scoped_copies [s1, s2]
        ([Call_CString s1 a1, Call_CString s2 a2, c] @ mid @ [Call_free a2, Call_free a1])"
  by (induction mid) (auto simp: scoped_copies_def copies_def frees_def)

lemma scoped_one:
  "is_entry_point c \<Longrightarrow> copied c = [] \<Longrightarrow> freed c = []
   \<Longrightarrow> \<forall>x \<in> set mid. copied x = [] \<and> freed x = [] \<and> \<not> is_entry_point x
   \<Longrightarrow> scoped_copies [s1] ([Call_CString s1 a1, c] @ mid @ [Call_free a1])"
  by (induction mid) (auto simp: scoped_copies_def copies_def frees_def)

lemma newCosmosError_quiet:
  "\<forall>x \<in> set (snd (newCosmosError cerr [])).
     copied x = [] \<and> freed x = [] \<and> \<not> is_entry_point x"
  by (auto simp: newCosmosError_events split: option.splits)

lemma NewCosmosClientWithKey_scoped:
  "\<exists>es. snd (NewCosmosClientWithKey lib endpoint key t) = t @ es
        \<and> scoped_copies [endpoint, key] es \<and> string_frees es = []"
proof -
  obtain cEndpoint t1 where h1: "CString lib endpoint t = (cEndpoint, t1)"
    by (cases "CString lib endpoint t")
  obtain cKey t2 where h2: "CString lib key t1 = (cKey, t2)"
    by (cases "CString lib key t1")
  obtain rc cl cerr where h3: "cosmos_client_create_with_key lib t2 cEndpoint cKey = (rc, cl, cerr)"
    by (cases "cosmos_client_create_with_key lib t2 cEndpoint cKey")
  let ?mid = "if rc \<noteq> COSMOS_ERROR_CODE_SUCCESS then snd (newCosmosError cerr []) else []"
  let ?es = "[Call_CString endpoint (fst cEndpoint), Call_CString key (fst cKey),
              Call_cosmos_client_create_with_key cEndpoint cKey] @ ?mid
             @ [Call_free (fst cKey), Call_free (fst cEndpoint)]"
  have quiet: "\<forall>x \<in> set ?mid. copied x = [] \<and> freed x = [] \<and> \<not> is_entry_point x"
    using newCosmosError_quiet [of cerr] by simp
  have "snd (NewCosmosClientWithKey lib endpoint key t) = t @ ?es"
    using NewCosmosClientWithKey_events [OF h1 h2 h3] by simp
  moreover have "scoped_copies [endpoint, key] ?es"
    by (rule scoped_two [OF _ _ _ quiet]) simp_all
  moreover have "string_frees ?es = []"
    by (auto simp: string_frees_def newCosmosError_events split: option.splits)
  ultimately show ?thesis by blast
qed

lemma CosmosClient_DatabaseClient_scoped:
  "\<exists>es. snd (CosmosClient_DatabaseClient lib c databaseID t) = t @ es
        \<and> (case client c of
              None \<Rightarrow> es = []
            | Some p \<Rightarrow> scoped_copies [databaseID] es \<and> string_frees es = [])"
proof (cases "client c")
  case None
  then show ?thesis by (simp add: CosmosClient_DatabaseClient_def)
next
  case (Some p)
  obtain cDatabaseID t1 where h1: "CString lib databaseID t = (cDatabaseID, t1)"
    by (cases "CString lib databaseID t")
  obtain rc db cerr where h2: "cosmos_client_database_client lib t1 p cDatabaseID = (rc, db, cerr)"
    by (cases "cosmos_client_database_client lib t1 p cDatabaseID")
  let ?mid = "if rc \<noteq> COSMOS_ERROR_CODE_SUCCESS then snd (newCosmosError cerr []) else []"
  let ?es = "[Call_CString databaseID (fst cDatabaseID),
              Call_cosmos_client_database_client p cDatabaseID] @ ?mid
             @ [Call_free (fst cDatabaseID)]"
  have quiet: "\<forall>x \<in> set ?mid. copied x = [] \<and> freed x = [] \<and> \<not> is_entry_point x"
    using newCosmosError_quiet [of cerr] by simp
  have "snd (CosmosClient_DatabaseClient lib c databaseID t) = t @ ?es"
    using CosmosClient_DatabaseClient_events [OF Some h1 h2] by simp
  moreover have "scoped_copies [databaseID] ?es"
    by (rule scoped_one [OF _ _ _ quiet]) simp_all
  moreover have "string_frees ?es = []"
    by (auto simp: string_frees_def newCosmosError_events split: option.splits)
  ultimately show ?thesis using Some by simp
qed

lemma DatabaseClient_ContainerClient_scoped:
  "\<exists>es. snd (DatabaseClient_ContainerClient lib d containerID t) = t @ es
        \<and> (case database d of
              None \<Rightarrow> es = []
            | Some p \<Rightarrow> scoped_copies [containerID] es \<and> string_frees es = [])"
proof (cases "database d")
  case None
  then show ?thesis by (simp add: DatabaseClient_ContainerClient_def)
next
  case (Some p)
  obtain cContainerID t1 where h1: "CString lib containerID t = (cContainerID, t1)"
    by (cases "CString lib containerID t")
  obtain rc ct cerr
    where h2: "cosmos_database_container_client lib t1 p cContainerID = (rc, ct, cerr)"
    by (cases "cosmos_database_container_client lib t1 p cContainerID")
  let ?mid = "if rc \<noteq> COSMOS_ERROR_CODE_SUCCESS then snd (newCosmosError cerr []) else []"
  let ?es = "[Call_CString containerID (fst cContainerID),
              Call_cosmos_database_container_client p cContainerID] @ ?mid
             @ [Call_free (fst cContainerID)]"
  have quiet: "\<forall>x \<in> set ?mid. copied x = [] \<and> freed x = [] \<and> \<not> is_entry_point x"
    using newCosmosError_quiet [of cerr] by simp
  have "snd (DatabaseClient_ContainerClient lib d containerID t) = t @ ?es"
    using DatabaseClient_ContainerClient_events [OF Some h1 h2] by simp
  moreover have "scoped_copies [containerID] ?es"
    by (rule scoped_one [OF _ _ _ quiet]) simp_all
  moreover have "string_frees ?es = []"
    by (auto simp: string_frees_def newCosmosError_events split: option.splits)
  ultimately show ?thesis using Some by simp
qed

lemma ContainerClient_ReadItem_scoped:
  "\<exists>es. snd (ContainerClient_ReadItem lib k itemID partitionKey t) = t @ es
        \<and> (case container k of
              None \<Rightarrow> es = []
            | Some p \<Rightarrow>
                scoped_copies [itemID, partitionKey] es
                \<and> (let (cItemID, t1) = CString lib itemID t;
                        (cPartitionKey, t2) = CString lib partitionKey t1;
                        (rc, outJson, cerr) =
                          cosmos_container_read_item lib t2 p cPartitionKey cItemID
                    in case (if rc = COSMOS_ERROR_CODE_SUCCESS then outJson else None) of
                         Some q \<Rightarrow>
                           fst (ContainerClient_ReadItem lib k itemID partitionKey t) =
                             (snd q, None)
                           \<and> string_frees es = [fst q]
                           \<and> (\<exists>xs ys. es = xs @ [Call_GoString (fst q),
                                                   Call_cosmos_string_free (fst q)] @ ys)
                       | None \<Rightarrow> string_frees es = []))"
proof (cases "container k")
  case None
  then show ?thesis by (simp add: ContainerClient_ReadItem_def)
next
  case (Some p)
  obtain cItemID t1 where h1: "CString lib itemID t = (cItemID, t1)"
    by (cases "CString lib itemID t")
  obtain cPartitionKey t2 where h2: "CString lib partitionKey t1 = (cPartitionKey, t2)"
    by (cases "CString lib partitionKey t1")
  obtain rc outJson cerr
    where h3: "cosmos_container_read_item lib t2 p cPartitionKey cItemID = (rc, outJson, cerr)"
    by (cases "cosmos_container_read_item lib t2 p cPartitionKey cItemID")
  let ?mid = "if rc \<noteq> COSMOS_ERROR_CODE_SUCCESS then snd (newCosmosError cerr [])
              else case outJson of
                     None \<Rightarrow> []
                   | Some q \<Rightarrow> [Call_GoString (fst q), Call_cosmos_string_free (fst q)]"
  let ?pre = "[Call_CString itemID (fst cItemID), Call_CString partitionKey (fst cPartitionKey),
               Call_cosmos_container_read_item p cPartitionKey cItemID]"
  let ?post = "[Call_free (fst cPartitionKey), Call_free (fst cItemID)]"
  let ?es = "?pre @ ?mid @ ?post"
  have quiet: "\<forall>x \<in> set ?mid. copied x = [] \<and> freed x = [] \<and> \<not> is_entry_point x"
    using newCosmosError_quiet [of cerr] by (auto split: option.splits)
  have ev: "snd (ContainerClient_ReadItem lib k itemID partitionKey t) = t @ ?es"
    using ContainerClient_ReadItem_events [OF Some h1 h2 h3] by simp
  have sc: "scoped_copies [itemID, partitionKey] ?es"
    by (rule scoped_two [OF _ _ _ quiet]) simp_all
  have out: "case (if rc = COSMOS_ERROR_CODE_SUCCESS then outJson else None) of
               Some q \<Rightarrow>
                 fst (ContainerClient_ReadItem lib k itemID partitionKey t) = (snd q, None)
                 \<and> string_frees ?es = [fst q]
                 \<and> (\<exists>xs ys. ?es = xs @ [Call_GoString (fst q),
                                          Call_cosmos_string_free (fst q)] @ ys)
             | None \<Rightarrow> string_frees ?es = []"
  proof (cases "rc = COSMOS_ERROR_CODE_SUCCESS")
    case False
    then show ?thesis
      by (auto simp: string_frees_def newCosmosError_events split: option.splits)
  next
    case True
    show ?thesis
    proof (cases outJson)
      case None
      with True show ?thesis by (simp add: string_frees_def)
    next
      case (Some q)
      have "?es = ?pre @ [Call_GoString (fst q), Call_cosmos_string_free (fst q)] @ ?post"
        using True Some by simp
      then have "\<exists>xs ys. ?es = xs @ [Call_GoString (fst q),
                                      Call_cosmos_string_free (fst q)] @ ys"
        by blast
      moreover have "fst (ContainerClient_ReadItem lib k itemID partitionKey t) = (snd q, None)"
        using ContainerClient_ReadItem_result [OF \<open>container k = Some p\<close> h1 h2 h3] True Some
        by simp
      moreover have "string_frees ?es = [fst q]"
        using True Some by (simp add: string_frees_def)
      ultimately show ?thesis using True Some by simp
    qed
  qed
  show ?thesis
    apply (rule exI [of _ ?es])
    apply (simp only: ev Some option.case h1 h2 h3 prod.case Let_def sc simp_thms)
    apply (rule out)
    done
qed

text \<open>
  Claim C8. Each wrapper function that calls an entry point taking text (create
  client, open database, open container, read item) copies every input string once
  with \<open>C.CString\<close> before the call and, on every path out (success, translated
  error, nil payload), gives exactly those copies to \<open>C.free\<close> after the call, each
  once, and frees nothing else. On a closed wrapper nothing is copied or freed. When
  the native read reports success with a payload, \<open>ReadItem\<close> returns the payload's
  text, read by \<open>C.GoString\<close>, and immediately afterwards hands the buffer to
  \<open>cosmos_string_free\<close>, once; on every other path \<open>cosmos_string_free\<close> is not called.
\<close>

theorem marshaling_scoped_release:
  "(\<exists>es. snd (NewCosmosClientWithKey lib endpoint key t) = t @ es
        \<and> scoped_copies [endpoint, key] es \<and> string_frees es = [])
   \<and> (\<exists>es. snd (CosmosClient_DatabaseClient lib c databaseID t) = t @ es
        \<and> (case client c of
              None \<Rightarrow> es = []
            | Some p \<Rightarrow> scoped_copies [databaseID] es \<and> string_frees es = []))
   \<and> (\<exists>es. snd (DatabaseClient_ContainerClient lib d containerID t) = t @ es
        \<and> (case database d of
              None \<Rightarrow> es = []
            | Some p \<Rightarrow> scoped_copies [containerID] es \<and> string_frees es = []))
   \<and> (\<exists>es. snd (ContainerClient_ReadItem lib k itemID partitionKey t) = t @ es
        \<and> (case container k of
              None \<Rightarrow> es = []
            | Some p \<Rightarrow>
                scoped_copies [itemID, partitionKey] es
                \<and> (let (cItemID, t1) = CString lib itemID t;
                        (cPartitionKey, t2) = CString lib partitionKey t1;
                        (rc, outJson, cerr) =
                          cosmos_container_read_item lib t2 p cPartitionKey cItemID
                    in case (if rc = COSMOS_ERROR_CODE_SUCCESS then outJson else None) of
                         Some q \<Rightarrow>
                           fst (ContainerClient_ReadItem lib k itemID partitionKey t) =
                             (snd q, None)
                           \<and> string_frees es = [fst q]
                           \<and> (\<exists>xs ys. es = xs @ [Call_GoString (fst q),
                                                   Call_cosmos_string_free (fst q)] @ ys)
                       | None \<Rightarrow> string_frees es = [])))"
  using NewCosmosClientWithKey_scoped CosmosClient_DatabaseClient_scoped
    DatabaseClient_ContainerClient_scoped ContainerClient_ReadItem_scoped
  by (intro conjI)

section \<open>The keys of an item\<close>

lemma those_map_Some: "those (map (\<lambda>i. Some (f i)) xs) = Some (map f xs)"
  by (induction xs) simp_all

lemma generateRandomInt_Some:
  "mn \<le> mx \<Longrightarrow> generateRandomInt raw mn mx = Some (mn + raw mod (mx - mn + 1))"
  by (simp add: generateRandomInt_def Intn_def)

lemma generateRandomString_Some:
  "\<exists>data. generateRandomString rng n sz = Some data"
proof -
  have "generateRandomInt raw 0 (int (length letters) - 1) = Some (raw mod 62)" for raw
    by (simp add: generateRandomInt_def Intn_def letters_def)
  then show ?thesis
    by (simp add: generateRandomString_def those_map_Some)
qed

lemma go_rem_nonneg: "0 \<le> a \<Longrightarrow> 0 < b \<Longrightarrow> go_rem a b = Some (a mod b)"
  by (cases "a = 0") (simp_all add: go_rem_def)

lemma createRandomDocsItem_keys:
  assumes "0 \<le> i" and "0 < partitionCount"
  shows "\<exists>item. createRandomDocsItem rng n i partitionCount = Some item
           \<and> ID item = ''item'' @ decimal i
           \<and> PartitionKey item = ''partition'' @ decimal (i mod partitionCount)"
proof -
  obtain data where d: "generateRandomString rng n 1024 = Some data"
    using generateRandomString_Some by blast
  have r: "generateRandomInt (rng (n + 1024)) 0 10000 = Some (0 + rng (n + 1024) mod (10000 - 0 + 1))"
    by (rule generateRandomInt_Some) simp
  show ?thesis
    by (simp add: createRandomDocsItem_def go_rem_nonneg [OF assms] d r)
qed

text \<open>
  Claim C5. For every index \<open>i\<close> of \<open>[0, itemCount)\<close> (each of them is a possible
  choice of \<open>Intn\<close>, and \<open>Intn\<close> chooses no other) and every positive \<open>partitionCount\<close>,
  the worker reads the item \<open>"item" + decimal i\<close> in the partition
  \<open>"partition" + decimal (i mod partitionCount)\<close>, and the data loader creates the item
  of index \<open>i\<close> under exactly these two keys. With 10000 items and 10 partitions, the
  draw 12345 gives the index 2345, the item \<open>item2345\<close> and the partition \<open>partition5\<close>.
\<close>

theorem deterministic_key_mapping:
  assumes "0 \<le> i" and "i < itemCount" and "0 < partitionCount"
  shows "Intn i itemCount = Some i
         \<and> (\<exists>j. Intn raw itemCount = Some j \<and> 0 \<le> j \<and> j < itemCount)
         \<and> worker_keys i partitionCount =
             Some (''item'' @ decimal i, ''partition'' @ decimal (i mod partitionCount))
         \<and> (\<exists>item. createRandomDocsItem rng n i partitionCount = Some item
               \<and> worker_keys i partitionCount = Some (ID item, PartitionKey item))
         \<and> Intn 12345 10000 = Some 2345
         \<and> worker_keys 2345 10 = Some (''item2345'', ''partition5'')"
proof -
  have pos: "0 < itemCount" using assms by simp
  have a: "Intn i itemCount = Some i"
    using assms by (simp add: Intn_def)
  have b: "\<exists>j. Intn raw itemCount = Some j \<and> 0 \<le> j \<and> j < itemCount"
    using pos by (simp add: Intn_def)
  have c: "worker_keys i partitionCount =
             Some (''item'' @ decimal i, ''partition'' @ decimal (i mod partitionCount))"
    by (simp add: worker_keys_def go_rem_nonneg [OF assms(1) assms(3)])
  have d: "\<exists>item. createRandomDocsItem rng n i partitionCount = Some item
               \<and> worker_keys i partitionCount = Some (ID item, PartitionKey item)"
    using createRandomDocsItem_keys [OF assms(1) assms(3), of rng n] c by auto
  have e: "Intn 12345 10000 = Some 2345"
    by (simp add: Intn_def)
  have f: "worker_keys 2345 10 = Some (''item2345'', ''partition5'')"
    by (simp add: worker_keys_def go_rem_def decimal_def decimal_nat.simps digit_char_def)
  from a b c d e f show ?thesis by blast
qed

theorem deterministic_key_mapping_witness:
  "(0::int) \<le> 2345 \<and> (2345::int) < 10000 \<and> (0::int) < 10
   \<and> Intn 2345 10000 = Some 2345
   \<and> worker_keys 2345 10 = Some (''item2345'', ''partition5'')
   \<and> (\<exists>item. createRandomDocsItem (\<lambda>n. int n) 0 2345 10 = Some item
         \<and> ID item = ''item2345'' \<and> PartitionKey item = ''partition5'')"
proof -
  have h1: "(0::int) \<le> 2345" and h2: "(2345::int) < 10000" and h3: "(0::int) < 10"
    by simp_all
  have k: "worker_keys 2345 10 = Some (''item2345'', ''partition5'')"
    using deterministic_key_mapping [OF h1 h2 h3] by blast
  obtain item where "createRandomDocsItem (\<lambda>n. int n) 0 2345 10 = Some item"
    and "worker_keys 2345 10 = Some (ID item, PartitionKey item)"
    using deterministic_key_mapping [OF h1 h2 h3, of _ "\<lambda>n. int n" 0] by blast
  with k have "\<exists>item. createRandomDocsItem (\<lambda>n. int n) 0 2345 10 = Some item
         \<and> ID item = ''item2345'' \<and> PartitionKey item = ''partition5''"
    by auto
  moreover have "Intn 2345 10000 = Some 2345"
    using deterministic_key_mapping [OF h1 h2 h3] by blast
  ultimately show ?thesis using k by simp
qed

section \<open>Aggregating the results\<close>

lemma Seconds_exact:
  assumes "0 \<le> d"
  shows "Seconds (\<lambda>x. x) d = real_of_int d / 1000000000"
proof -
  have "d = (d div 1000000000) * 1000000000 + d mod 1000000000"
    by simp
  then have "real_of_int d =
      real_of_int (d div 1000000000) * 1000000000 + real_of_int (d mod 1000000000)"
    by (metis of_int_add of_int_mult of_int_numeral)
  then have "real_of_int d / 1000000000 =
      real_of_int (d div 1000000000) + real_of_int (d mod 1000000000) / 1000000000"
    by (simp add: field_simps)
  moreover have "sgn d * (\<bar>d\<bar> div 1000000000) = d div 1000000000"
    and "sgn d * (\<bar>d\<bar> mod 1000000000) = d mod 1000000000"
    using assms by (cases "d = 0"; simp)+
  ultimately show ?thesis
    by (simp add: Seconds_def float64_of_int_def)
qed

lemma mean_latency_example:
  assumes "\<forall>k::int. \<bar>k\<bar> \<le> 2 ^ 53 \<longrightarrow> fl (of_int k) = of_int k"
  shows "fdiv fl (fdiv fl (Finite (float64_of_int fl 100000000)) (float64_of_int fl 100)) 1000000 =
           Finite 1"
proof -
  have e1: "fl 100000000 = 100000000"
    using assms [rule_format, of 100000000] by simp
  have e2: "fl 100 = 100"
    using assms [rule_format, of 100] by simp
  have e3: "fl 1000000 = 1000000"
    using assms [rule_format, of 1000000] by simp
  have e4: "fl 1 = 1"
    using assms [rule_format, of 1] by simp
  show ?thesis
    by (simp add: fdiv_def float64_of_int_def e1 e2 e3 e4)
qed

text \<open>
  Claim C6. With the counters read after all workers have joined: when the counter of
  successful operations is zero the result is the error "no operations completed"
  and no results; otherwise the results hold the count, the elapsed time, the
  operations per second \<open>totalOps / elapsedSeconds\<close> and the mean latency
  \<open>cumulativeLatencyNs / totalOps / 1e6\<close>, each division rounded to a \<open>float64\<close>. In
  exact arithmetic these are the two quotients themselves. With any rounding that
  leaves the integers up to \<open>2 ^ 53\<close> unchanged, as that of \<open>float64\<close> does, 100
  operations and 100000000 ns of latency give a mean latency of exactly 1.0 ms.
\<close>

theorem results_aggregation:
  "executeBenchmark_results fl elapsed 0 latency = Inl (Errorf ''no operations completed'')
   \<and> (ops \<noteq> 0 \<longrightarrow>
        executeBenchmark_results fl elapsed ops latency =
          Inr \<lparr>TotalOps = sint ops,
               ElapsedTime = elapsed,
               OpsPerSecond =
                 fdiv fl (Finite (float64_of_int fl (sint ops))) (Seconds fl elapsed),
               LatencyMs =
                 fdiv fl
                   (fdiv fl (Finite (float64_of_int fl (sint latency)))
                      (float64_of_int fl (sint ops)))
                   1000000\<rparr>)
   \<and> (ops \<noteq> 0 \<and> 0 < elapsed \<longrightarrow>
        executeBenchmark_results (\<lambda>x. x) elapsed ops latency =
          Inr \<lparr>TotalOps = sint ops,
               ElapsedTime = elapsed,
               OpsPerSecond =
                 Finite (real_of_int (sint ops) / (real_of_int elapsed / 1000000000)),
               LatencyMs =
                 Finite (real_of_int (sint latency) / real_of_int (sint ops) / 1000000)\<rparr>)
   \<and> ((\<forall>k::int. \<bar>k\<bar> \<le> 2 ^ 53 \<longrightarrow> fl (of_int k) = of_int k) \<longrightarrow>
        (\<exists>r. executeBenchmark_results fl elapsed 100 100000000 = Inr r
            \<and> TotalOps r = 100 \<and> LatencyMs r = Finite 1))"
proof -
  have a: "executeBenchmark_results fl elapsed 0 latency =
             Inl (Errorf ''no operations completed'')"
    by (simp add: executeBenchmark_results_def)
  have b: "ops \<noteq> 0 \<longrightarrow>
        executeBenchmark_results fl elapsed ops latency =
          Inr \<lparr>TotalOps = sint ops,
               ElapsedTime = elapsed,
               OpsPerSecond =
                 fdiv fl (Finite (float64_of_int fl (sint ops))) (Seconds fl elapsed),
               LatencyMs =
                 fdiv fl
                   (fdiv fl (Finite (float64_of_int fl (sint latency)))
                      (float64_of_int fl (sint ops)))
                   1000000\<rparr>"
    by (simp add: executeBenchmark_results_def)
  have c: "ops \<noteq> 0 \<and> 0 < elapsed \<longrightarrow>
        executeBenchmark_results (\<lambda>x. x) elapsed ops latency =
          Inr \<lparr>TotalOps = sint ops,
               ElapsedTime = elapsed,
               OpsPerSecond =
                 Finite (real_of_int (sint ops) / (real_of_int elapsed / 1000000000)),
               LatencyMs =
                 Finite (real_of_int (sint latency) / real_of_int (sint ops) / 1000000)\<rparr>"
  proof
    assume h: "ops \<noteq> 0 \<and> 0 < elapsed"
    then have s: "Seconds (\<lambda>x. x) elapsed = real_of_int elapsed / 1000000000"
      by (simp add: Seconds_exact)
    have nz: "sint ops \<noteq> 0"
      using h by (simp add: signed_eq_0_iff)
    show "executeBenchmark_results (\<lambda>x. x) elapsed ops latency =
          Inr \<lparr>TotalOps = sint ops,
               ElapsedTime = elapsed,
               OpsPerSecond =
                 Finite (real_of_int (sint ops) / (real_of_int elapsed / 1000000000)),
               LatencyMs =
                 Finite (real_of_int (sint latency) / real_of_int (sint ops) / 1000000)\<rparr>"
      using h nz by (simp add: executeBenchmark_results_def s fdiv_def float64_of_int_def
          signed_eq_0_iff)
  qed
  have d: "(\<forall>k::int. \<bar>k\<bar> \<le> 2 ^ 53 \<longrightarrow> fl (of_int k) = of_int k) \<longrightarrow>
        (\<exists>r. executeBenchmark_results fl elapsed 100 100000000 = Inr r
            \<and> TotalOps r = 100 \<and> LatencyMs r = Finite 1)"
  proof
    assume h: "\<forall>k::int. \<bar>k\<bar> \<le> 2 ^ 53 \<longrightarrow> fl (of_int k) = of_int k"
    have "sint (100 :: 64 word) = 100" and "sint (100000000 :: 64 word) = 100000000"
      by simp_all
    then show "\<exists>r. executeBenchmark_results fl elapsed 100 100000000 = Inr r
            \<and> TotalOps r = 100 \<and> LatencyMs r = Finite 1"
      using mean_latency_example [OF h] by (simp add: executeBenchmark_results_def)
  qed
  from a b c d show ?thesis by blast
qed

theorem results_aggregation_witness:
  "executeBenchmark_results (\<lambda>x. x) 60000000000 100 100000000 =
     Inr \<lparr>TotalOps = 100, ElapsedTime = 60000000000,
          OpsPerSecond = Finite (5 / 3), LatencyMs = Finite 1\<rparr>
   \<and> executeBenchmark_results (\<lambda>x. x) 60000000000 0 0 =
       Inl (Errorf ''no operations completed'')"
proof -
  have n: "(100 :: 64 word) \<noteq> 0" by simp
  have p: "(100 :: 64 word) \<noteq> 0 \<and> (0::int) < 60000000000" by simp
  have x: "\<forall>k::int. \<bar>k\<bar> \<le> 2 ^ 53 \<longrightarrow> (\<lambda>x::real. x) (of_int k) = of_int k" by simp
  note inst = results_aggregation
    [where fl = "\<lambda>x. x" and elapsed = 60000000000 and ops = 100 and latency = 100000000]
  have s: "sint (100 :: 64 word) = 100" and t: "sint (100000000 :: 64 word) = 100000000"
    by simp_all
  have z: "executeBenchmark_results (\<lambda>x. x) 60000000000 0 100000000 =
             Inl (Errorf ''no operations completed'')"
    using inst by blast
  have r: "executeBenchmark_results (\<lambda>x. x) 60000000000 100 100000000 =
          Inr \<lparr>TotalOps = sint (100 :: 64 word),
               ElapsedTime = 60000000000,
               OpsPerSecond =
                 Finite (real_of_int (sint (100 :: 64 word)) / (real_of_int 60000000000 / 1000000000)),
               LatencyMs =
                 Finite (real_of_int (sint (100000000 :: 64 word))
                           / real_of_int (sint (100 :: 64 word)) / 1000000)\<rparr>"
    using inst p by blast
  have "\<exists>r. executeBenchmark_results (\<lambda>x. x) 60000000000 100 100000000 = Inr r
            \<and> TotalOps r = 100 \<and> LatencyMs r = Finite 1"
    using inst x by blast
  then show ?thesis
    using r by (simp add: s t executeBenchmark_results_def)
qed

section \<open>Failed attempts of a worker\<close>







section \<open>Stopping the workers\<close>

lemma worker_step_length:
  "worker_step lib c itemCount partitionCount i d now s = Some s'
   \<Longrightarrow> length (workers s') = length (workers s)"
  by (auto simp: worker_step_def Let_def
      split: if_splits wpc.splits option.splits prod.splits)

lemma worker_step_other:
  "worker_step lib c itemCount partitionCount i d now s = Some s' \<Longrightarrow> j \<noteq> i
   \<Longrightarrow> workers s' ! j = workers s ! j"
  by (auto simp: worker_step_def Let_def
      split: if_splits wpc.splits option.splits prod.splits)

lemma worker_step_not_returned:
  "worker_step lib c itemCount partitionCount i d now s = Some s'
   \<Longrightarrow> workers s ! i \<noteq> W_returned"
  by (auto simp: worker_step_def split: if_splits)

lemma worker_step_harness:
  "worker_step lib c itemCount partitionCount i d now s = Some s'
   \<Longrightarrow> harness s' = harness s \<and> ctx_closed s' = ctx_closed s
       \<and> stopChan_closed s' = stopChan_closed s"
  by (auto simp: worker_step_def Let_def
      split: if_splits wpc.splits option.splits prod.splits)

lemma harness_step_workers:
  "harness_step fl el s = Some s' \<Longrightarrow> workers s' = workers s \<and> shared s' = shared s"
  by (auto simp: harness_step_def split: if_splits hpc.splits)

text \<open>No step changes the number of workers, and a worker that has returned stays so.\<close>

lemma sys_step_length:
  "sys_step lib c itemCount partitionCount fl a s = Some s'
   \<Longrightarrow> length (workers s') = length (workers s)"
  by (cases a)
    (auto simp: sys_step_def worker_step_length harness_step_workers split: if_splits)

lemma sys_step_returned:
  assumes "sys_step lib c itemCount partitionCount fl a s = Some s'"
    and "workers s ! i = W_returned"
  shows "workers s' ! i = W_returned"
proof (cases a)
  case Fire
  then show ?thesis using assms by (auto simp: sys_step_def split: if_splits)
next
  case (Worker j d now)
  then have st: "worker_step lib c itemCount partitionCount j d now s = Some s'"
    using assms by (simp add: sys_step_def)
  then have "j \<noteq> i"
    using worker_step_not_returned [OF st] assms(2) by auto
  then show ?thesis
    using worker_step_other [OF st] assms(2) by simp
next
  case (Harness el)
  then show ?thesis using assms by (auto simp: sys_step_def harness_step_workers)
qed

text \<open>When every worker has returned, no step changes what the workers share.\<close>

lemma sys_step_all_returned:
  assumes "sys_step lib c itemCount partitionCount fl a s = Some s'"
    and "list_all (\<lambda>w. w = W_returned) (workers s)"
  shows "workers s' = workers s \<and> shared s' = shared s"
proof (cases a)
  case Fire
  then show ?thesis using assms by (auto simp: sys_step_def split: if_splits)
next
  case (Worker j d now)
  then have st: "worker_step lib c itemCount partitionCount j d now s = Some s'"
    using assms by (simp add: sys_step_def)
  have "j < length (workers s)"
    using st by (auto simp: worker_step_def split: if_splits)
  then have "workers s ! j = W_returned"
    using assms(2) by (simp add: list_all_length)
  then show ?thesis
    using worker_step_not_returned [OF st] by simp
next
  case (Harness el)
  then show ?thesis using assms by (auto simp: sys_step_def harness_step_workers)
qed

lemma waited_step:
  assumes "sys_step lib c itemCount partitionCount fl a s = Some s'"
    and "waited fl s"
  shows "waited fl s'"
proof (cases a)
  case Fire
  then show ?thesis
    using assms by (auto simp: sys_step_def waited_def split: if_splits hpc.splits)
next
  case (Worker j d now)
  then have st: "worker_step lib c itemCount partitionCount j d now s = Some s'"
    using assms by (simp add: sys_step_def)
  have h: "harness s' = harness s"
    using worker_step_harness [OF st] by simp
  show ?thesis
  proof (cases "joined (harness s)")
    case True
    then have all: "list_all (\<lambda>w. w = W_returned) (workers s)"
      using assms(2) by (simp add: waited_def)
    have "workers s' = workers s \<and> shared s' = shared s"
      using sys_step_all_returned [OF assms(1) all] .
    then show ?thesis
      using assms(2) h by (cases "harness s") (simp_all add: waited_def)
  next
    case False
    then show ?thesis
      using h by (cases "harness s") (simp_all add: waited_def)
  qed
next
  case (Harness el)
  then have st: "harness_step fl el s = Some s'"
    using assms by (simp add: sys_step_def)
  have w: "workers s' = workers s" and sh: "shared s' = shared s"
    using harness_step_workers [OF st] by simp_all
  show ?thesis
    using st assms(2)
    by (cases "harness s")
      (auto simp: harness_step_def waited_def w sh split: if_splits)
qed

lemma waited_run:
  "run lib c itemCount partitionCount fl as s = Some s' \<Longrightarrow> waited fl s \<Longrightarrow> waited fl s'"
proof (induction as arbitrary: s)
  case Nil
  then show ?case by simp
next
  case (Cons a as)
  then obtain s1 where st: "sys_step lib c itemCount partitionCount fl a s = Some s1"
    and rest: "run lib c itemCount partitionCount fl as s1 = Some s'"
    by (auto split: option.splits)
  show ?case
    using Cons.IH [OF rest waited_step [OF st Cons.prems(2)]] .
qed

lemma waited_started: "waited fl (started n t)"
  by (simp add: waited_def started_def)

text \<open>The check of a worker: either signal alone makes it return, and nothing else does.\<close>

lemma select_step:
  assumes "workers s ! i = W_select" and "i < length (workers s)" and "\<not> crashed s"
  shows "sys_step lib c itemCount partitionCount fl (Worker i d now) s =
           Some (s\<lparr>workers := (workers s)
                   [i := (if ctx_closed s \<or> stopChan_closed s then W_returned
                          else W_default)]\<rparr>)"
  using assms by (simp add: sys_step_def worker_step_def)

text \<open>A read is entered only from the default branch of the \<open>select\<close> just before.\<close>

lemma read_entered_from_default:
  assumes "sys_step lib c itemCount partitionCount fl a s = Some s'"
    and "i < length (workers s)"
    and "in_read (workers s' ! i)" and "\<not> in_read (workers s ! i)"
  shows "workers s ! i = W_default \<and> moves a i"
proof (cases a)
  case Fire
  then show ?thesis using assms by (auto simp: sys_step_def split: if_splits)
next
  case (Worker j d now)
  then have st: "worker_step lib c itemCount partitionCount j d now s = Some s'"
    using assms by (simp add: sys_step_def)
  have "j = i"
    using worker_step_other [OF st, of i] assms(3) assms(4) by (cases "i = j") simp_all
  then show ?thesis
    using st assms(2) assms(3) assms(4) Worker
    by (auto simp: worker_step_def Let_def
        split: if_splits wpc.splits option.splits prod.splits)
next
  case (Harness el)
  then show ?thesis using assms by (auto simp: sys_step_def harness_step_workers)
qed

lemma default_entered_from_select:
  assumes "sys_step lib c itemCount partitionCount fl a s = Some s'"
    and "i < length (workers s)"
    and "workers s' ! i = W_default" and "workers s ! i \<noteq> W_default"
  shows "workers s ! i = W_select \<and> \<not> ctx_closed s \<and> \<not> stopChan_closed s \<and> moves a i"
proof (cases a)
  case Fire
  then show ?thesis using assms by (auto simp: sys_step_def split: if_splits)
next
  case (Worker j d now)
  then have st: "worker_step lib c itemCount partitionCount j d now s = Some s'"
    using assms by (simp add: sys_step_def)
  have "j = i"
    using worker_step_other [OF st, of i] assms(3) assms(4) by (cases "i = j") simp_all
  then show ?thesis
    using st assms(2) assms(3) assms(4) Worker
    by (auto simp: worker_step_def Let_def
        split: if_splits wpc.splits option.splits prod.splits)
next
  case (Harness el)
  then show ?thesis using assms by (auto simp: sys_step_def harness_step_workers)
qed

text \<open>
  A read in flight: its worker can always complete it, whatever the signals are, and
  no one else moves that worker.
\<close>

lemma read_completes:
  assumes "workers s ! i = W_in_read itemID partitionKey t0"
    and "i < length (workers s)" and "\<not> crashed s"
  shows "\<exists>s'. sys_step lib c itemCount partitionCount fl (Worker i d now) s = Some s'
           \<and> (workers s' ! i = W_select \<or> workers s' ! i = W_add_ops (Sub now t0))"
proof -
  obtain result err b
    where rd: "ContainerClient_ReadItem lib c itemID partitionKey (boundary (shared s)) =
                 ((result, err), b)"
    by (metis prod.exhaust)
  show ?thesis
    using assms rd by (cases err) (simp_all add: sys_step_def worker_step_def)
qed

lemma only_own_steps:
  assumes "sys_step lib c itemCount partitionCount fl a s = Some s'" and "\<not> moves a i"
  shows "workers s' ! i = workers s ! i"
proof (cases a)
  case Fire
  then show ?thesis using assms by (auto simp: sys_step_def split: if_splits)
next
  case (Worker j d now)
  then have st: "worker_step lib c itemCount partitionCount j d now s = Some s'"
    using assms by (simp add: sys_step_def)
  have "i \<noteq> j" using assms(2) Worker by simp
  then show ?thesis using worker_step_other [OF st] by simp
next
  case (Harness el)
  then show ?thesis using assms by (auto simp: sys_step_def harness_step_workers)
qed

text \<open>
  The steps of one worker, taken together, are one pass of the loop of
  \<open>workerBenchmark\<close>: from its \<open>select\<close>, with the signals as they are at the check, the
  draw \<open>d\<close> and the clock readings \<open>ta\<close> before and \<open>tb\<close> after the read, the worker
  returns, or panics, or is back at its \<open>select\<close> with the counters and the output of
  \<open>worker_iteration\<close>.
\<close>

lemma worker_at_default:
  assumes "workers s ! i = W_default" and "i < length (workers s)" and "\<not> crashed s"
    and "Intn d itemCount = Some itemIndex"
    and "worker_keys itemIndex partitionCount = Some (itemID, partitionKey)"
  shows "sys_step lib c itemCount partitionCount fl (Worker i d now) s =
           Some (s\<lparr>workers := (workers s)[i := W_in_read itemID partitionKey now]\<rparr>)"
  using assms by (simp add: sys_step_def worker_step_def)

lemma worker_at_read:
  assumes "workers s ! i = W_in_read itemID partitionKey ta"
    and "i < length (workers s)" and "\<not> crashed s"
    and "ContainerClient_ReadItem lib c itemID partitionKey (boundary (shared s)) =
           ((result, err), b)"
  shows "sys_step lib c itemCount partitionCount fl (Worker i d tb) s =
           Some (case err of
                   Some e \<Rightarrow>
                     s\<lparr>shared := (shared s)
                         \<lparr>boundary := b,
                          stdout := stdout (shared s) @
                            [''Worker '' @ decimal (int i) @ '': Error reading item ''
                               @ itemID @ '': '' @ Error e]\<rparr>,
                       workers := (workers s)[i := W_select]\<rparr>
                 | None \<Rightarrow>
                     s\<lparr>shared := (shared s)\<lparr>boundary := b\<rparr>,
                       workers := (workers s)[i := W_add_ops (Sub tb ta)]\<rparr>)"
  using assms by (cases err) (simp_all add: sys_step_def worker_step_def)

lemma worker_at_add_ops:
  assumes "workers s ! i = W_add_ops l" and "i < length (workers s)" and "\<not> crashed s"
  shows "sys_step lib c itemCount partitionCount fl (Worker i d now) s =
           Some (s\<lparr>shared := (shared s)\<lparr>totalOps := totalOps (shared s) + 1\<rparr>,
                   workers := (workers s)[i := W_add_latency l]\<rparr>)"
  using assms by (simp add: sys_step_def worker_step_def)

lemma worker_at_add_latency:
  assumes "workers s ! i = W_add_latency l" and "i < length (workers s)"
    and "\<not> crashed s"
  shows "sys_step lib c itemCount partitionCount fl (Worker i d now) s =
           Some (s\<lparr>shared := (shared s)
                     \<lparr>totalLatency := totalLatency (shared s) + word_of_int l\<rparr>,
                   workers := (workers s)[i := W_select]\<rparr>)"
  using assms by (simp add: sys_step_def worker_step_def)

lemma worker_pass_return:
  assumes sel: "workers s ! i = W_select" and len: "i < length (workers s)"
    and nc: "\<not> crashed s"
    and it: "worker_iteration lib c itemCount partitionCount (int i)
           \<lparr>ctx_done = ctx_closed s, stop_closed = stopChan_closed s, draw = d,
            opStart = ta, opEnd = tb\<rparr> (shared s) = (Return, b)"
  shows "run lib c itemCount partitionCount fl [Worker i d ta] s =
           Some (s\<lparr>workers := (workers s)[i := W_returned]\<rparr>) \<and> b = shared s"
proof -
  have f: "ctx_closed s \<or> stopChan_closed s"
    using it
    by (auto simp: worker_iteration_def Let_def case_prod_beta
        split: if_splits option.splits)
  have b: "b = shared s"
    using it f by (cases "ctx_closed s") (auto simp: worker_iteration_def)
  show ?thesis
    using select_step [OF sel len nc, of lib c itemCount partitionCount fl d ta] f b
    by auto
qed

lemma worker_pass_panic:
  assumes sel: "workers s ! i = W_select" and len: "i < length (workers s)"
    and nc: "\<not> crashed s"
    and it: "worker_iteration lib c itemCount partitionCount (int i)
           \<lparr>ctx_done = ctx_closed s, stop_closed = stopChan_closed s, draw = d,
            opStart = ta, opEnd = tb\<rparr> (shared s) = (Panic, b)"
  shows "run lib c itemCount partitionCount fl [Worker i d ta, Worker i d ta] s =
           Some (s\<lparr>workers := (workers s)[i := W_default], crashed := True\<rparr>)
         \<and> b = shared s"
proof -
  let ?s1 = "s\<lparr>workers := (workers s)[i := W_default]\<rparr>"
  have nf: "\<not> ctx_closed s" "\<not> stopChan_closed s"
    using it by (auto simp: worker_iteration_def split: if_splits)
  have st1: "sys_step lib c itemCount partitionCount fl (Worker i d ta) s = Some ?s1"
    using select_step [OF sel len nc, of lib c itemCount partitionCount fl d ta] nf
    by simp
  have p: "Intn d itemCount = None
      \<or> (\<exists>x. Intn d itemCount = Some x \<and> worker_keys x partitionCount = None)"
    using it nf
    by (auto simp: worker_iteration_def Let_def case_prod_beta split: option.splits)
  have b: "b = shared s"
    using it nf
    by (auto simp: worker_iteration_def Let_def case_prod_beta split: option.splits)
  have st2: "sys_step lib c itemCount partitionCount fl (Worker i d ta) ?s1 =
      Some (?s1\<lparr>crashed := True\<rparr>)"
    using p len nc by (auto simp: sys_step_def worker_step_def)
  show ?thesis
    using st1 st2 b by simp
qed

lemma worker_pass_continue:
  assumes sel: "workers s ! i = W_select" and len: "i < length (workers s)"
    and nc: "\<not> crashed s"
    and it: "worker_iteration lib c itemCount partitionCount (int i)
           \<lparr>ctx_done = ctx_closed s, stop_closed = stopChan_closed s, draw = d,
            opStart = ta, opEnd = tb\<rparr> (shared s) = (Continue, b)"
  shows "run lib c itemCount partitionCount fl
           [Worker i d ta, Worker i d ta, Worker i d tb] s = Some (s\<lparr>shared := b\<rparr>)
         \<or> run lib c itemCount partitionCount fl
           [Worker i d ta, Worker i d ta, Worker i d tb, Worker i d tb, Worker i d tb] s =
             Some (s\<lparr>shared := b\<rparr>)"
proof -
  have nf: "\<not> ctx_closed s" "\<not> stopChan_closed s"
    using it by (auto simp: worker_iteration_def split: if_splits)
  obtain x where x: "Intn d itemCount = Some x"
    using it nf by (auto simp: worker_iteration_def split: option.splits)
  obtain itemID partitionKey
    where ks: "worker_keys x partitionCount = Some (itemID, partitionKey)"
    using it nf x by (auto simp: worker_iteration_def split: option.splits)
  obtain result err bd
    where rd: "ContainerClient_ReadItem lib c itemID partitionKey (boundary (shared s)) =
                 ((result, err), bd)"
    by (metis prod.exhaust)
  let ?s1 = "s\<lparr>workers := (workers s)[i := W_default]\<rparr>"
  let ?s2 = "s\<lparr>workers := (workers s)[i := W_in_read itemID partitionKey ta]\<rparr>"
  have st1: "sys_step lib c itemCount partitionCount fl (Worker i d ta) s = Some ?s1"
    using select_step [OF sel len nc, of lib c itemCount partitionCount fl d ta] nf
    by simp
  have st2: "sys_step lib c itemCount partitionCount fl (Worker i d ta) ?s1 = Some ?s2"
    using worker_at_default [of ?s1 i d itemCount x partitionCount itemID partitionKey
        lib c fl ta] len nc x ks
    by simp
  have same: "(workers s)[i := W_select] = workers s"
    using sel by (metis list_update_id)
  show ?thesis
  proof (cases err)
    case (Some e)
    have b: "b = (shared s)
               \<lparr>boundary := bd,
                stdout := stdout (shared s) @
                  [''Worker '' @ decimal (int i) @ '': Error reading item ''
                     @ itemID @ '': '' @ Error e]\<rparr>"
      using it nf x ks rd Some by (simp add: worker_iteration_def)
    have st3: "sys_step lib c itemCount partitionCount fl (Worker i d tb) ?s2 =
        Some (s\<lparr>shared := b\<rparr>)"
      using worker_at_read [of ?s2 i itemID partitionKey ta lib c result err bd
          itemCount partitionCount fl d tb] len nc rd Some b same
      by simp
    show ?thesis
      using st1 st2 st3 by simp
  next
    case None
    let ?s3 = "s\<lparr>shared := (shared s)\<lparr>boundary := bd\<rparr>,
                 workers := (workers s)[i := W_add_ops (Sub tb ta)]\<rparr>"
    let ?s4 = "s\<lparr>shared := (shared s)\<lparr>boundary := bd, totalOps := totalOps (shared s) + 1\<rparr>,
                 workers := (workers s)[i := W_add_latency (Sub tb ta)]\<rparr>"
    have b: "b = (shared s)
               \<lparr>boundary := bd, totalOps := totalOps (shared s) + 1,
                totalLatency := totalLatency (shared s) + word_of_int (Sub tb ta)\<rparr>"
      using it nf x ks rd None by (simp add: worker_iteration_def)
    have st3: "sys_step lib c itemCount partitionCount fl (Worker i d tb) ?s2 = Some ?s3"
      using worker_at_read [of ?s2 i itemID partitionKey ta lib c result err bd
          itemCount partitionCount fl d tb] len nc rd None
      by simp
    have st4: "sys_step lib c itemCount partitionCount fl (Worker i d tb) ?s3 = Some ?s4"
      using worker_at_add_ops [of ?s3 i "Sub tb ta" lib c itemCount partitionCount fl d tb]
        len nc
      by simp
    have st5: "sys_step lib c itemCount partitionCount fl (Worker i d tb) ?s4 =
        Some (s\<lparr>shared := b\<rparr>)"
      using worker_at_add_latency
          [of ?s4 i "Sub tb ta" lib c itemCount partitionCount fl d tb]
        len nc b same
      by simp
    show ?thesis
      using st1 st2 st3 st4 st5 by simp
  qed
qed

text \<open>
  Claim C9, as the code has it. In every run of the harness and its workers, whatever
  the schedule:
  \<^item> a worker at its \<open>select\<close> returns when the context is done or the stop channel is
    closed (either is enough) and takes the default branch otherwise;
  \<^item> a worker enters a read only from the default branch, and the default branch only
    from a \<open>select\<close> that found neither signal: one check for each read, before it;
  \<^item> a worker that has returned stays so, and begins no read again;
  \<^item> a worker inside a read can always complete it, whatever the signals are by then,
    and no step of anyone else moves it: a read in flight is not interrupted;
  \<^item> once the harness is past \<open>wg.Wait()\<close>, every worker has returned, no step changes
    the counters any more, and the result is the result of these counters.
\<close>

theorem cooperative_cancellation:
  "(workers s ! i = W_select \<and> i < length (workers s) \<and> \<not> crashed s \<longrightarrow>
      sys_step lib c itemCount partitionCount fl (Worker i d now) s =
        Some (s\<lparr>workers := (workers s)
                [i := (if ctx_closed s \<or> stopChan_closed s then W_returned
                       else W_default)]\<rparr>))
   \<and> (sys_step lib c itemCount partitionCount fl a s = Some s' \<and> i < length (workers s)
        \<and> in_read (workers s' ! i) \<and> \<not> in_read (workers s ! i) \<longrightarrow>
      workers s ! i = W_default \<and> moves a i)
   \<and> (sys_step lib c itemCount partitionCount fl a s = Some s' \<and> i < length (workers s)
        \<and> workers s' ! i = W_default \<and> workers s ! i \<noteq> W_default \<longrightarrow>
      workers s ! i = W_select \<and> \<not> ctx_closed s \<and> \<not> stopChan_closed s \<and> moves a i)
   \<and> (sys_step lib c itemCount partitionCount fl a s = Some s' \<and> workers s ! i = W_returned \<longrightarrow>
      workers s' ! i = W_returned)
   \<and> (workers s ! i = W_in_read itemID partitionKey t0 \<and> i < length (workers s)
        \<and> \<not> crashed s \<longrightarrow>
      (\<exists>s''. sys_step lib c itemCount partitionCount fl (Worker i d now) s = Some s''
           \<and> (workers s'' ! i = W_select \<or> workers s'' ! i = W_add_ops (Sub now t0))))
   \<and> (sys_step lib c itemCount partitionCount fl a s = Some s' \<and> \<not> moves a i \<longrightarrow>
      workers s' ! i = workers s ! i)
   \<and> (run lib c itemCount partitionCount fl sched (started n t) = Some z
        \<and> joined (harness z) \<longrightarrow>
      list_all (\<lambda>w. w = W_returned) (workers z)
      \<and> (sys_step lib c itemCount partitionCount fl a z = Some z' \<longrightarrow> shared z' = shared z))
   \<and> (run lib c itemCount partitionCount fl sched (started n t) = Some z
        \<and> harness z = H_done r \<longrightarrow>
      (\<exists>el. r = executeBenchmark_results fl el (totalOps (shared z))
                 (totalLatency (shared z))))"
proof -
  have e1: "list_all (\<lambda>w. w = W_returned) (workers z)
      \<and> (sys_step lib c itemCount partitionCount fl a z = Some z' \<longrightarrow> shared z' = shared z)"
    if r: "run lib c itemCount partitionCount fl sched (started n t) = Some z"
      and j: "joined (harness z)"
  proof -
    have "waited fl z"
      using waited_run [OF r waited_started] .
    then have all: "list_all (\<lambda>w. w = W_returned) (workers z)"
      using j by (simp add: waited_def)
    then show ?thesis
      using sys_step_all_returned [of lib c itemCount partitionCount fl a z z'] by blast
  qed
  have e2: "\<exists>el. r = executeBenchmark_results fl el (totalOps (shared z))
                 (totalLatency (shared z))"
    if r: "run lib c itemCount partitionCount fl sched (started n t) = Some z"
      and h: "harness z = H_done r"
  proof -
    have "waited fl z"
      using waited_run [OF r waited_started] .
    then show ?thesis
      using h by (simp add: waited_def)
  qed
  show ?thesis
    using select_step [of s i lib c itemCount partitionCount fl d now]
      read_entered_from_default [of lib c itemCount partitionCount fl a s s' i]
      default_entered_from_select [of lib c itemCount partitionCount fl a s s' i]
      sys_step_returned [of lib c itemCount partitionCount fl a s s' i]
      read_completes [of s i itemID partitionKey t0 lib c itemCount partitionCount fl d now]
      only_own_steps [of lib c itemCount partitionCount fl a s s' i]
      e1 e2
    by (intro conjI impI; (elim conjE)?; blast)
qed

text \<open>
  One worker, a library that answers every read: the steps of a run, evaluated.
\<close>

lemma one_worker_select:
  "sys_step good_double \<lparr>container = Some 300, container_finalizer = True\<rparr> 10000 10 (\<lambda>x. x)
     (Worker 0 12345 1000) (started 1 []) =
     Some \<lparr>ctx_closed = False, stopChan_closed = False, workers = [W_default],
           harness = H_wait_done,
           shared = \<lparr>totalOps = 0, totalLatency = 0, stdout = [], boundary = []\<rparr>,
           crashed = False\<rparr>"
  by (simp add: sys_step_def worker_step_def started_def)

lemma one_worker_begin:
  "sys_step good_double \<lparr>container = Some 300, container_finalizer = True\<rparr> 10000 10 (\<lambda>x. x)
     (Worker 0 12345 1000)
     \<lparr>ctx_closed = fired, stopChan_closed = False, workers = [W_default],
      harness = H_wait_done,
      shared = \<lparr>totalOps = 0, totalLatency = 0, stdout = [], boundary = []\<rparr>,
      crashed = False\<rparr> =
     Some \<lparr>ctx_closed = fired, stopChan_closed = False,
           workers = [W_in_read ''item2345'' ''partition5'' 1000],
           harness = H_wait_done,
           shared = \<lparr>totalOps = 0, totalLatency = 0, stdout = [], boundary = []\<rparr>,
           crashed = False\<rparr>"
  by (simp add: sys_step_def worker_step_def Intn_def worker_keys_def go_rem_def decimal_def
      decimal_nat.simps digit_char_def)

lemma one_worker_read:
  "sys_step good_double \<lparr>container = Some 300, container_finalizer = True\<rparr> 10000 10 (\<lambda>x. x)
     (Worker 0 0 2500)
     \<lparr>ctx_closed = fired, stopChan_closed = False,
      workers = [W_in_read ''item2345'' ''partition5'' 1000],
      harness = H_wait_done,
      shared = \<lparr>totalOps = 0, totalLatency = 0, stdout = [], boundary = []\<rparr>,
      crashed = False\<rparr> =
     Some \<lparr>ctx_closed = fired, stopChan_closed = False,
           workers = [W_add_ops 1500],
           harness = H_wait_done,
           shared = \<lparr>totalOps = 0, totalLatency = 0, stdout = [],
             boundary =
               [Call_CString ''item2345'' 0, Call_CString ''partition5'' 1,
                Call_cosmos_container_read_item 300 (1, ''partition5'') (0, ''item2345''),
                Call_GoString 400, Call_cosmos_string_free 400, Call_free 1, Call_free 0]\<rparr>,
           crashed = False\<rparr>"
  by (simp add: sys_step_def worker_step_def ContainerClient_ReadItem_def CString_def
      good_double_def GoString_def free_def COSMOS_ERROR_CODE_SUCCESS_def Sub_def)

lemma fire_step:
  "sys_step lib c itemCount partitionCount fl Fire
     \<lparr>ctx_closed = False, stopChan_closed = x, workers = ws, harness = h, shared = b,
      crashed = False\<rparr> =
     Some \<lparr>ctx_closed = True, stopChan_closed = x, workers = ws, harness = h, shared = b,
           crashed = False\<rparr>"
  by (simp add: sys_step_def)

text \<open>
  Claim C9, as stated, fails where it says that no worker begins a new read after
  either signal fires. A worker takes the default branch of its \<open>select\<close>; then the
  context is cancelled; the worker, past its check, begins its read all the same, and
  the native library is called: the history of the boundary, empty when the signal
  fired, holds the read afterwards.
\<close>

theorem read_begun_after_cancellation:
  "run good_double \<lparr>container = Some 300, container_finalizer = True\<rparr> 10000 10 (\<lambda>x. x)
     [Worker 0 12345 1000, Fire] (started 1 []) =
     Some \<lparr>ctx_closed = True, stopChan_closed = False, workers = [W_default],
           harness = H_wait_done,
           shared = \<lparr>totalOps = 0, totalLatency = 0, stdout = [], boundary = []\<rparr>,
           crashed = False\<rparr>
   \<and> run good_double \<lparr>container = Some 300, container_finalizer = True\<rparr> 10000 10 (\<lambda>x. x)
     [Worker 0 12345 1000, Fire, Worker 0 12345 1000] (started 1 []) =
     Some \<lparr>ctx_closed = True, stopChan_closed = False,
           workers = [W_in_read ''item2345'' ''partition5'' 1000],
           harness = H_wait_done,
           shared = \<lparr>totalOps = 0, totalLatency = 0, stdout = [], boundary = []\<rparr>,
           crashed = False\<rparr>
   \<and> run good_double \<lparr>container = Some 300, container_finalizer = True\<rparr> 10000 10 (\<lambda>x. x)
     [Worker 0 12345 1000, Fire, Worker 0 12345 1000, Worker 0 0 2500] (started 1 []) =
     Some \<lparr>ctx_closed = True, stopChan_closed = False,
           workers = [W_add_ops 1500],
           harness = H_wait_done,
           shared = \<lparr>totalOps = 0, totalLatency = 0, stdout = [],
             boundary =
               [Call_CString ''item2345'' 0, Call_CString ''partition5'' 1,
                Call_cosmos_container_read_item 300 (1, ''partition5'') (0, ''item2345''),
                Call_GoString 400, Call_cosmos_string_free 400, Call_free 1, Call_free 0]\<rparr>,
           crashed = False\<rparr>"
  by (simp only: run.simps one_worker_select one_worker_begin one_worker_read fire_step
      option.case simp_thms)

lemma add_ops_step:
  "sys_step lib c itemCount partitionCount fl (Worker 0 d now)
     \<lparr>ctx_closed = x, stopChan_closed = y, workers = [W_add_ops l], harness = h,
      shared = \<lparr>totalOps = n, totalLatency = m, stdout = out, boundary = b\<rparr>,
      crashed = False\<rparr> =
     Some \<lparr>ctx_closed = x, stopChan_closed = y, workers = [W_add_latency l], harness = h,
           shared = \<lparr>totalOps = n + 1, totalLatency = m, stdout = out, boundary = b\<rparr>,
           crashed = False\<rparr>"
  by (simp add: sys_step_def worker_step_def)

lemma add_latency_step:
  "sys_step lib c itemCount partitionCount fl (Worker 0 d now)
     \<lparr>ctx_closed = x, stopChan_closed = y, workers = [W_add_latency l], harness = h,
      shared = \<lparr>totalOps = n, totalLatency = m, stdout = out, boundary = b\<rparr>,
      crashed = False\<rparr> =
     Some \<lparr>ctx_closed = x, stopChan_closed = y, workers = [W_select], harness = h,
           shared = \<lparr>totalOps = n, totalLatency = m + word_of_int l, stdout = out,
                     boundary = b\<rparr>,
           crashed = False\<rparr>"
  by (simp add: sys_step_def worker_step_def)

lemma stopped_select_step:
  "sys_step lib c itemCount partitionCount fl (Worker 0 d now)
     \<lparr>ctx_closed = x, stopChan_closed = True, workers = [W_select], harness = h,
      shared = b, crashed = False\<rparr> =
     Some \<lparr>ctx_closed = x, stopChan_closed = True, workers = [W_returned], harness = h,
           shared = b, crashed = False\<rparr>"
  by (simp add: sys_step_def worker_step_def)

lemma harness_steps:
  "sys_step lib c itemCount partitionCount fl (Harness el)
     \<lparr>ctx_closed = True, stopChan_closed = y, workers = ws, harness = H_wait_done,
      shared = b, crashed = False\<rparr> =
     Some \<lparr>ctx_closed = True, stopChan_closed = y, workers = ws, harness = H_close_stop,
           shared = b, crashed = False\<rparr>"
  "sys_step lib c itemCount partitionCount fl (Harness el)
     \<lparr>ctx_closed = x, stopChan_closed = y, workers = ws, harness = H_close_stop,
      shared = b, crashed = False\<rparr> =
     Some \<lparr>ctx_closed = x, stopChan_closed = True, workers = ws, harness = H_wg_wait,
           shared = b, crashed = False\<rparr>"
  "sys_step lib c itemCount partitionCount fl (Harness el)
     \<lparr>ctx_closed = x, stopChan_closed = y, workers = [W_returned], harness = H_wg_wait,
      shared = b, crashed = False\<rparr> =
     Some \<lparr>ctx_closed = x, stopChan_closed = y, workers = [W_returned], harness = H_load,
           shared = b, crashed = False\<rparr>"
  "sys_step lib c itemCount partitionCount fl (Harness el)
     \<lparr>ctx_closed = x, stopChan_closed = y, workers = ws, harness = H_load,
      shared = b, crashed = False\<rparr> =
     Some \<lparr>ctx_closed = x, stopChan_closed = y, workers = ws,
           harness = H_done (executeBenchmark_results fl el (totalOps b) (totalLatency b)),
           shared = b, crashed = False\<rparr>"
  by (simp_all add: sys_step_def harness_step_def)

lemma one_worker_run:
  "run good_double \<lparr>container = Some 300, container_finalizer = True\<rparr> 10000 10 (\<lambda>x. x)
     [Worker 0 12345 1000, Worker 0 12345 1000, Worker 0 0 2500, Fire, Worker 0 0 0,
      Harness 0, Worker 0 0 0, Harness 0, Worker 0 0 0, Harness 0, Harness 60000000000]
     (started 1 []) =
     Some \<lparr>ctx_closed = True, stopChan_closed = True, workers = [W_returned],
           harness = H_done (executeBenchmark_results (\<lambda>x. x) 60000000000 1 1500),
           shared = \<lparr>totalOps = 1, totalLatency = 1500, stdout = [],
             boundary =
               [Call_CString ''item2345'' 0, Call_CString ''partition5'' 1,
                Call_cosmos_container_read_item 300 (1, ''partition5'') (0, ''item2345''),
                Call_GoString 400, Call_cosmos_string_free 400, Call_free 1, Call_free 0]\<rparr>,
           crashed = False\<rparr>"
  apply (simp only: run.simps one_worker_select one_worker_begin one_worker_read option.case)
  apply (simp add: fire_step add_ops_step add_latency_step stopped_select_step harness_steps)
  done

theorem cooperative_cancellation_witness:
  "sys_step good_double \<lparr>container = Some 300, container_finalizer = True\<rparr> 10000 10 (\<lambda>x. x)
     (Worker 0 12345 1000)
     \<lparr>ctx_closed = False, stopChan_closed = True, workers = [W_select],
      harness = H_wg_wait,
      shared = \<lparr>totalOps = 0, totalLatency = 0, stdout = [], boundary = []\<rparr>,
      crashed = False\<rparr> =
     Some \<lparr>ctx_closed = False, stopChan_closed = True, workers = [W_returned],
           harness = H_wg_wait,
           shared = \<lparr>totalOps = 0, totalLatency = 0, stdout = [], boundary = []\<rparr>,
           crashed = False\<rparr>
   \<and> moves (Worker 0 12345 1000) 0
   \<and> (\<exists>s''. sys_step good_double \<lparr>container = Some 300, container_finalizer = True\<rparr>
          10000 10 (\<lambda>x. x) (Worker 0 0 2500)
          \<lparr>ctx_closed = True, stopChan_closed = False,
           workers = [W_in_read ''item2345'' ''partition5'' 1000],
           harness = H_wait_done,
           shared = \<lparr>totalOps = 0, totalLatency = 0, stdout = [], boundary = []\<rparr>,
           crashed = False\<rparr> = Some s''
        \<and> (workers s'' ! 0 = W_select \<or> workers s'' ! 0 = W_add_ops 1500))
   \<and> (\<exists>z el. run good_double \<lparr>container = Some 300, container_finalizer = True\<rparr> 10000 10
          (\<lambda>x. x)
          [Worker 0 12345 1000, Worker 0 12345 1000, Worker 0 0 2500, Fire, Worker 0 0 0,
           Harness 0, Worker 0 0 0, Harness 0, Worker 0 0 0, Harness 0, Harness 60000000000]
          (started 1 []) = Some z
        \<and> list_all (\<lambda>w. w = W_returned) (workers z)
        \<and> totalOps (shared z) = 1 \<and> totalLatency (shared z) = 1500
        \<and> harness z = H_done (executeBenchmark_results (\<lambda>x. x) el 1 1500))"
proof -
  let ?c = "\<lparr>container = Some 300, container_finalizer = True\<rparr>"
  let ?b = "\<lparr>totalOps = 0, totalLatency = 0, stdout = [], boundary = []\<rparr>"
  let ?stop = "\<lparr>ctx_closed = False, stopChan_closed = True, workers = [W_select],
      harness = H_wg_wait, shared = ?b, crashed = False\<rparr>"
  let ?def = "\<lparr>ctx_closed = True, stopChan_closed = False, workers = [W_default],
      harness = H_wait_done, shared = ?b, crashed = False\<rparr>"
  let ?rd = "\<lparr>ctx_closed = True, stopChan_closed = False,
      workers = [W_in_read ''item2345'' ''partition5'' 1000],
      harness = H_wait_done, shared = ?b, crashed = False\<rparr>"
  let ?sel = "\<lparr>ctx_closed = False, stopChan_closed = False, workers = [W_select],
      harness = H_wait_done, shared = ?b, crashed = False\<rparr>"
  let ?nodef = "\<lparr>ctx_closed = False, stopChan_closed = False, workers = [W_default],
      harness = H_wait_done, shared = ?b, crashed = False\<rparr>"
  let ?ret = "\<lparr>ctx_closed = False, stopChan_closed = True, workers = [W_returned],
      harness = H_wg_wait, shared = ?b, crashed = False\<rparr>"
  let ?sched = "[Worker 0 12345 1000, Worker 0 12345 1000, Worker 0 0 2500, Fire, Worker 0 0 0,
           Harness 0, Worker 0 0 0, Harness 0, Worker 0 0 0, Harness 0, Harness 60000000000]"
  let ?z = "\<lparr>ctx_closed = True, stopChan_closed = True, workers = [W_returned],
           harness = H_done (executeBenchmark_results (\<lambda>x. x) 60000000000 1 1500),
           shared = \<lparr>totalOps = 1, totalLatency = 1500, stdout = [],
             boundary =
               [Call_CString ''item2345'' 0, Call_CString ''partition5'' 1,
                Call_cosmos_container_read_item 300 (1, ''partition5'') (0, ''item2345''),
                Call_GoString 400, Call_cosmos_string_free 400, Call_free 1, Call_free 0]\<rparr>,
           crashed = False\<rparr>"
  note cc = cooperative_cancellation
      [where lib = good_double and c = ?c and itemCount = 10000 and partitionCount = 10
         and fl = "\<lambda>x. x" and i = 0]
  txt \<open>the check, with only the stop channel closed\<close>
  have h1: "workers ?stop ! 0 = W_select \<and> 0 < length (workers ?stop) \<and> \<not> crashed ?stop"
    by simp
  have w1: "sys_step good_double ?c 10000 10 (\<lambda>x. x) (Worker 0 12345 1000) ?stop = Some ?ret"
    using cc [where s = ?stop and d = 12345 and now = 1000, THEN conjunct1, THEN mp, OF h1]
    by simp
  txt \<open>entering a read, from the default branch\<close>
  have h2: "sys_step good_double ?c 10000 10 (\<lambda>x. x) (Worker 0 12345 1000) ?def = Some ?rd
      \<and> 0 < length (workers ?def) \<and> in_read (workers ?rd ! 0)
      \<and> \<not> in_read (workers ?def ! 0)"
    by (simp add: one_worker_begin)
  have w2: "workers ?def ! 0 = W_default \<and> moves (Worker 0 12345 1000) 0"
    by (rule cc [where s = ?def and s' = ?rd and a = "Worker 0 12345 1000",
          THEN conjunct2, THEN conjunct1, THEN mp, OF h2])
  txt \<open>entering the default branch, from a check that found no signal\<close>
  have h3: "sys_step good_double ?c 10000 10 (\<lambda>x. x) (Worker 0 12345 1000) ?sel = Some ?nodef
      \<and> 0 < length (workers ?sel) \<and> workers ?nodef ! 0 = W_default
      \<and> workers ?sel ! 0 \<noteq> W_default"
    using one_worker_select by (simp add: started_def)
  have w3: "workers ?sel ! 0 = W_select \<and> \<not> ctx_closed ?sel \<and> \<not> stopChan_closed ?sel
      \<and> moves (Worker 0 12345 1000) 0"
    by (rule cc [where s = ?sel and s' = ?nodef and a = "Worker 0 12345 1000",
          THEN conjunct2, THEN conjunct2, THEN conjunct1, THEN mp, OF h3])
  txt \<open>a worker that has returned, when the context is cancelled\<close>
  have h4: "sys_step good_double ?c 10000 10 (\<lambda>x. x) Fire ?ret = Some (?ret\<lparr>ctx_closed := True\<rparr>)
      \<and> workers ?ret ! 0 = W_returned"
    by (simp add: sys_step_def)
  have w4: "workers (?ret\<lparr>ctx_closed := True\<rparr>) ! 0 = W_returned"
    by (rule cc [where s = ?ret and s' = "?ret\<lparr>ctx_closed := True\<rparr>" and a = Fire,
          THEN conjunct2, THEN conjunct2, THEN conjunct2, THEN conjunct1, THEN mp, OF h4])
  txt \<open>a read in flight, after the context was cancelled\<close>
  have h5: "workers ?rd ! 0 = W_in_read ''item2345'' ''partition5'' 1000
      \<and> 0 < length (workers ?rd) \<and> \<not> crashed ?rd"
    by simp
  have lat: "Sub 2500 1000 = 1500"
    by (simp add: Sub_def)
  have w5: "\<exists>s''. sys_step good_double ?c 10000 10 (\<lambda>x. x) (Worker 0 0 2500) ?rd = Some s''
        \<and> (workers s'' ! 0 = W_select \<or> workers s'' ! 0 = W_add_ops 1500)"
    using cc [where s = ?rd and d = 0 and now = 2500,
          THEN conjunct2, THEN conjunct2, THEN conjunct2, THEN conjunct2, THEN conjunct1,
          THEN mp, OF h5]
    by (simp only: lat)
  txt \<open>a step of someone else\<close>
  have h6: "sys_step good_double ?c 10000 10 (\<lambda>x. x) Fire ?ret = Some (?ret\<lparr>ctx_closed := True\<rparr>)
      \<and> \<not> moves Fire 0"
    by (simp add: sys_step_def)
  have w6: "workers (?ret\<lparr>ctx_closed := True\<rparr>) ! 0 = workers ?ret ! 0"
    by (rule cc [where s = ?ret and s' = "?ret\<lparr>ctx_closed := True\<rparr>" and a = Fire,
          THEN conjunct2, THEN conjunct2, THEN conjunct2, THEN conjunct2, THEN conjunct2,
          THEN conjunct1, THEN mp, OF h6])
  txt \<open>a whole run\<close>
  have h7: "run good_double ?c 10000 10 (\<lambda>x. x) ?sched (started 1 []) = Some ?z
      \<and> joined (harness ?z)"
    by (simp only: one_worker_run) simp
  have w7: "list_all (\<lambda>w. w = W_returned) (workers ?z)"
    by (rule cc [where z = ?z and sched = ?sched and n = 1 and t = "[]",
          THEN conjunct2, THEN conjunct2, THEN conjunct2, THEN conjunct2, THEN conjunct2,
          THEN conjunct2, THEN conjunct1, THEN mp, OF h7, THEN conjunct1])
  have h8: "run good_double ?c 10000 10 (\<lambda>x. x) ?sched (started 1 []) = Some ?z
      \<and> harness ?z = H_done (executeBenchmark_results (\<lambda>x. x) 60000000000 1 1500)"
    by (simp only: one_worker_run) simp
  have w8: "\<exists>el. executeBenchmark_results (\<lambda>x. x) 60000000000 1 1500 =
      executeBenchmark_results (\<lambda>x. x) el (totalOps (shared ?z)) (totalLatency (shared ?z))"
    by (rule cc [where z = ?z and sched = ?sched and n = 1 and t = "[]",
          THEN conjunct2, THEN conjunct2, THEN conjunct2, THEN conjunct2, THEN conjunct2,
          THEN conjunct2, THEN conjunct2, THEN mp, OF h8])
  have whole: "\<exists>z el. run good_double ?c 10000 10 (\<lambda>x. x) ?sched (started 1 []) = Some z
        \<and> list_all (\<lambda>w. w = W_returned) (workers z)
        \<and> totalOps (shared z) = 1 \<and> totalLatency (shared z) = 1500
        \<and> harness z = H_done (executeBenchmark_results (\<lambda>x. x) el 1 1500)"
    using h7 w7 by (intro exI [of _ ?z] exI [of _ 60000000000]) simp
  have mv: "moves (Worker 0 12345 1000) 0"
    using w2 w3 w4 w6 w8 by simp
  show ?thesis
    using w1 mv w5 whole by (intro conjI)
qed

end
